theory Spec2Isabelle
  imports Complex_Main
begin

section \<open>JavaScript values as the handlers see them\<close>

text \<open>
  A number is a finite value, NaN or an infinity. Every finite double is a rational, and
  the comparisons of the code are against decimal literals, so finite numbers are
  modelled by \<open>rat\<close> (a superset of the finite doubles).
\<close>

datatype jsnum = Fin rat | NaN | PosInf | NegInf

datatype jsval =
    JUndefined
  | JNull
  | JBool bool
  | JNum jsnum
  | JStr string
  | JArr "jsval list"
  | JObj "(string \<times> jsval) list"

datatype js_error = SyntaxError string | TypeError string | Error string

fun error_message :: "js_error \<Rightarrow> string" where
  "error_message (SyntaxError m) = m"
| "error_message (TypeError m) = m"
| "error_message (Error m) = m"

text \<open>Truthiness, as used by \<open>!x\<close>, \<open>x || y\<close>, \<open>x && y\<close> and \<open>if (x)\<close>.\<close>

fun truthy :: "jsval \<Rightarrow> bool" where
  "truthy JUndefined = False"
| "truthy JNull = False"
| "truthy (JBool b) = b"
| "truthy (JNum n) = (n \<noteq> Fin 0 \<and> n \<noteq> NaN)"
| "truthy (JStr s) = (s \<noteq> [])"
| "truthy (JArr xs) = True"
| "truthy (JObj kvs) = True"

definition nullish :: "jsval \<Rightarrow> bool" where
  "nullish v = (v = JUndefined \<or> v = JNull)"

text \<open>\<open>a || b\<close>: the first operand when it is truthy, the second otherwise.\<close>

definition js_or :: "jsval \<Rightarrow> jsval \<Rightarrow> jsval" where
  "js_or a b = (if truthy a then a else b)"

text \<open>
  \<open>v.k\<close> for a value that is neither null nor undefined: an own property of an object,
  and undefined for a missing key and for a primitive or an array (none of the keys the
  handlers read is a built-in property). Reading a property of null or undefined throws;
  \<open>read_prop\<close> is that checked read, \<open>opt_prop\<close> is \<open>v?.k\<close>.
\<close>

fun get_prop :: "jsval \<Rightarrow> string \<Rightarrow> jsval" where
  "get_prop (JObj kvs) k = (case map_of kvs k of Some v \<Rightarrow> v | None \<Rightarrow> JUndefined)"
| "get_prop v k = JUndefined"

definition read_prop :: "jsval \<Rightarrow> string \<Rightarrow> js_error + jsval" where
  "read_prop v k =
     (if nullish v then Inl (TypeError ''Cannot read properties of null or undefined'')
      else Inr (get_prop v k))"

definition opt_prop :: "jsval \<Rightarrow> string \<Rightarrow> jsval" where
  "opt_prop v k = (if nullish v then JUndefined else get_prop v k)"

text \<open>\<open>typeof v === 'object'\<close> holds for objects, arrays and null.\<close>

fun typeof_object :: "jsval \<Rightarrow> bool" where
  "typeof_object JNull = True"
| "typeof_object (JArr xs) = True"
| "typeof_object (JObj kvs) = True"
| "typeof_object v = False"

text \<open>
  The coercions of the language. On the primitive cases they are written out. The
  number that a string denotes (NaN when it denotes none) belongs to the runtime and is
  a parameter; so is the conversion of an array or an object to a number, which can
  throw (None), and the conversion of a number, an array or an object to a string.
\<close>

record num_coercion =
  string_number :: "string \<Rightarrow> jsnum"
  object_number :: "jsval \<Rightarrow> jsnum option"

fun ToNumber :: "num_coercion \<Rightarrow> jsval \<Rightarrow> jsnum option" where
  "ToNumber cn (JNum n) = Some n"
| "ToNumber cn JUndefined = Some NaN"
| "ToNumber cn JNull = Some (Fin 0)"
| "ToNumber cn (JBool b) = Some (Fin (if b then 1 else 0))"
| "ToNumber cn (JStr s) = Some (string_number cn s)"
| "ToNumber cn v = object_number cn v"

fun ToString :: "(jsval \<Rightarrow> string option) \<Rightarrow> jsval \<Rightarrow> string option" where
  "ToString cs (JStr s) = Some s"
| "ToString cs JUndefined = Some ''undefined''"
| "ToString cs JNull = Some ''null''"
| "ToString cs (JBool b) = Some (if b then ''true'' else ''false'')"
| "ToString cs v = cs v"

text \<open>\<open>x > c\<close> and \<open>x < c\<close> on numbers: every comparison with NaN is false.\<close>

fun num_gt :: "jsnum \<Rightarrow> rat \<Rightarrow> bool" where
  "num_gt (Fin x) c = (x > c)"
| "num_gt PosInf c = True"
| "num_gt n c = False"

fun num_lt :: "jsnum \<Rightarrow> rat \<Rightarrow> bool" where
  "num_lt (Fin x) c = (x < c)"
| "num_lt NegInf c = True"
| "num_lt n c = False"

section \<open>services/fireAlertService.js\<close>

text \<open>The service object: \<open>alertHistory\<close> and \<open>maxHistorySize\<close>, set by the constructor.\<close>

record 'a FireAlertService =
  alertHistory :: "'a list"
  maxHistorySize :: nat

definition new_FireAlertService :: "unit \<Rightarrow> 'a FireAlertService" where
  "new_FireAlertService u = \<lparr>alertHistory = [], maxHistorySize = 100\<rparr>"

text \<open>
  \<open>addToHistory\<close>: \<open>unshift\<close> puts the alert at the head, and the history is cut to
  \<open>slice(0, maxHistorySize)\<close> when it has grown past the bound.
\<close>

definition addToHistory :: "'a FireAlertService \<Rightarrow> 'a \<Rightarrow> 'a FireAlertService" where
  "addToHistory s alert =
     (let h = alert # alertHistory s
      in if length h > maxHistorySize s
         then s\<lparr>alertHistory := take (maxHistorySize s) h\<rparr>
         else s\<lparr>alertHistory := h\<rparr>)"

text \<open>
  \<open>xs.slice(0, e)\<close> for an integer \<open>e\<close>: a negative end counts from the end of the
  array, and the end is clamped to the length.
\<close>

definition slice0 :: "'a list \<Rightarrow> int \<Rightarrow> 'a list" where
  "slice0 xs e =
     (let n = int (length xs);
          k = (if e < 0 then max (n + e) 0 else min e n)
      in take (nat k) xs)"

text \<open>
  \<open>getRecentAlerts(limit = 10)\<close> returns a fresh array and leaves the service as it
  is; the model returns the result together with the service after the call.
\<close>

definition getRecentAlerts ::
  "'a FireAlertService \<Rightarrow> int option \<Rightarrow> 'a list \<times> 'a FireAlertService" where
  "getRecentAlerts s limit =
     (slice0 (alertHistory s) (case limit of None \<Rightarrow> 10 | Some l \<Rightarrow> l), s)"

text \<open>A run of \<open>addToHistory\<close> calls on a fresh service, in the order of the list.\<close>

definition add_all :: "'a list \<Rightarrow> 'a FireAlertService" where
  "add_all xs = foldl addToHistory (new_FireAlertService ()) xs"

text \<open>
  \<open>calculateSeverity(data)\<close>. Each comparison coerces its operand to a number, which
  can throw for an array or an object; reading a field of a null or undefined \<open>data\<close>
  throws.
\<close>

definition js_gt :: "num_coercion \<Rightarrow> jsval \<Rightarrow> rat \<Rightarrow> js_error + bool" where
  "js_gt cn v c =
     (case ToNumber cn v of
        None \<Rightarrow> Inl (TypeError ''Cannot convert object to primitive value'')
      | Some n \<Rightarrow> Inr (num_gt n c))"

definition js_lt :: "num_coercion \<Rightarrow> jsval \<Rightarrow> rat \<Rightarrow> js_error + bool" where
  "js_lt cn v c =
     (case ToNumber cn v of
        None \<Rightarrow> Inl (TypeError ''Cannot convert object to primitive value'')
      | Some n \<Rightarrow> Inr (num_lt n c))"

text \<open>
  An \<open>if (c1) s += p1; else if (c2) s += p2; else if (c3) s += p3;\<close> chain: the
  conditions are evaluated in order, and the first that throws ends the call.
\<close>

fun score_chain :: "((js_error + bool) \<times> nat) list \<Rightarrow> nat \<Rightarrow> js_error + nat" where
  "score_chain [] s = Inr s"
| "score_chain ((c, p) # rest) s =
     (case c of
        Inl e \<Rightarrow> Inl e
      | Inr True \<Rightarrow> Inr (s + p)
      | Inr False \<Rightarrow> score_chain rest s)"

definition severity_level :: "nat \<Rightarrow> string" where
  "severity_level severityScore =
     (if severityScore \<ge> 8 then ''EXTREME''
      else if severityScore \<ge> 6 then ''CRITICAL''
      else if severityScore \<ge> 4 then ''HIGH''
      else if severityScore \<ge> 2 then ''MODERATE''
      else ''LOW'')"

definition calculateSeverity :: "num_coercion \<Rightarrow> jsval \<Rightarrow> js_error + string" where
  "calculateSeverity cn data =
     (if nullish data then Inl (TypeError ''Cannot read properties of null or undefined'')
      else
        let temperature = get_prop data ''temperature'';
            humidity = get_prop data ''humidity'';
            smoke_level = get_prop data ''smoke_level'';
            air_quality = get_prop data ''air_quality''
        in case score_chain [(js_gt cn temperature 60, 3), (js_gt cn temperature 45, 2),
                             (js_gt cn temperature 35, 1)] 0 of
             Inl e \<Rightarrow> Inl e
           | Inr s1 \<Rightarrow>
        (case score_chain [(js_lt cn humidity 20, 3), (js_lt cn humidity 35, 2),
                           (js_lt cn humidity 50, 1)] s1 of
             Inl e \<Rightarrow> Inl e
           | Inr s2 \<Rightarrow>
        (case score_chain [(js_gt cn smoke_level 300, 3), (js_gt cn smoke_level 200, 2),
                           (js_gt cn smoke_level 100, 1)] s2 of
             Inl e \<Rightarrow> Inl e
           | Inr s3 \<Rightarrow>
        (case score_chain [(js_gt cn air_quality 250, 2), (js_gt cn air_quality 150, 1)] s3 of
             Inl e \<Rightarrow> Inl e
           | Inr severityScore \<Rightarrow> Inr (severity_level severityScore)))))"

text \<open>
  \<open>validateAlertData(data)\<close>: each of \<open>deviceId\<close>, \<open>temperature\<close> and \<open>location\<close>
  must be truthy, and then both coordinates of \<open>location\<close>. \<open>data[field]\<close> throws for
  a null or undefined \<open>data\<close>.
\<close>

fun all_fields_truthy :: "jsval \<Rightarrow> string list \<Rightarrow> bool" where
  "all_fields_truthy data [] = True"
| "all_fields_truthy data (field # rest) =
     (if \<not> truthy (get_prop data field) then False else all_fields_truthy data rest)"

definition validateAlertData :: "jsval \<Rightarrow> js_error + bool" where
  "validateAlertData data =
     (if nullish data then Inl (TypeError ''Cannot read properties of null or undefined'')
      else if \<not> all_fields_truthy data [''deviceId'', ''temperature'', ''location''] then Inr False
      else if \<not> truthy (get_prop (get_prop data ''location'') ''latitude'')
              \<or> \<not> truthy (get_prop (get_prop data ''location'') ''longitude'') then Inr False
      else Inr True)"

text \<open>The structured alert that \<open>processFireAlert\<close> builds.\<close>

record AlertReadings =
  temperature :: jsval
  humidity :: jsval
  smoke_level :: jsval
  air_quality :: jsval
  location :: jsval

record ProcessedAlert =
  alert_id :: string
  alert_type :: string
  deviceId :: jsval
  severity :: string
  timestamp :: string
  readings :: AlertReadings
  emergency :: bool
  processed :: bool

text \<open>
  \<open>processFireAlert(alertData)\<close>. The identifier made by \<open>generateAlertId()\<close> and the
  time of the call are arguments. The \<open>catch\<close> of the source logs the error and throws
  it again, so an error of the body is the error of the call, and the history is changed
  only by a call that returns.
\<close>

definition processFireAlert ::
  "num_coercion \<Rightarrow> string \<Rightarrow> string \<Rightarrow> ProcessedAlert FireAlertService \<Rightarrow> jsval
     \<Rightarrow> (js_error + ProcessedAlert) \<times> ProcessedAlert FireAlertService" where
  "processFireAlert cn new_id now s alertData =
     (case validateAlertData alertData of
        Inl e \<Rightarrow> (Inl e, s)
      | Inr False \<Rightarrow> (Inl (Error ''Invalid alert data structure''), s)
      | Inr True \<Rightarrow>
          (case calculateSeverity cn alertData of
             Inl e \<Rightarrow> (Inl e, s)
           | Inr sev \<Rightarrow>
               let processedAlert =
                     \<lparr>alert_id = new_id,
                      alert_type = ''FIRE_EMERGENCY'',
                      deviceId = get_prop alertData ''deviceId'',
                      severity = sev,
                      timestamp = now,
                      readings =
                        \<lparr>temperature = get_prop alertData ''temperature'',
                         humidity = get_prop alertData ''humidity'',
                         smoke_level = get_prop alertData ''smoke_level'',
                         air_quality = get_prop alertData ''air_quality'',
                         location = get_prop alertData ''location''\<rparr>,
                      emergency = True,
                      processed = True\<rparr>
               in (Inr processedAlert, addToHistory s processedAlert)))"

text \<open>
  The number coercions of the examples. Of the strings only \<open>70\<close>, the one the examples
  use, denotes a number. An object is NaN, through \<open>[object Object]\<close>, unless it has a
  \<open>toString\<close> of its own: in a parsed payload that is never a function, and the
  conversion throws. The examples convert no array; here an array throws as well.
\<close>

definition coercion_throws :: num_coercion where
  "coercion_throws =
     \<lparr>string_number = (\<lambda>s. if s = ''70'' then Fin 70 else NaN),
      object_number = (\<lambda>v. case v of
                               JObj kvs \<Rightarrow>
                                 if get_prop v ''toString'' = JUndefined then Some NaN else None
                             | _ \<Rightarrow> None)\<rparr>"

section \<open>The severity table of the specification\<close>

text \<open>
  Each metric has a table of (threshold, points) pairs; the metric contributes the
  points of the highest tier whose threshold is met, and 0 when none is met.
\<close>

definition spec_points :: "(rat \<times> nat) list \<Rightarrow> (rat \<Rightarrow> bool) \<Rightarrow> nat" where
  "spec_points table met = foldr max (map snd (filter (\<lambda>(threshold, points). met threshold) table)) 0"

definition spec_score :: "jsnum \<Rightarrow> jsnum \<Rightarrow> jsnum \<Rightarrow> jsnum \<Rightarrow> nat" where
  "spec_score t h s a =
     spec_points [(35, 1), (45, 2), (60, 3)] (num_gt t)
     + spec_points [(50, 1), (35, 2), (20, 3)] (num_lt h)
     + spec_points [(100, 1), (200, 2), (300, 3)] (num_gt s)
     + spec_points [(150, 1), (250, 2)] (num_gt a)"

definition spec_tier :: "nat \<Rightarrow> string" where
  "spec_tier total_score =
     (if total_score \<ge> 8 then ''EXTREME'' else if total_score \<ge> 6 then ''CRITICAL''
      else if total_score \<ge> 4 then ''HIGH'' else if total_score \<ge> 2 then ''MODERATE'' else ''LOW'')"

definition spec_severity :: "jsnum \<Rightarrow> jsnum \<Rightarrow> jsnum \<Rightarrow> jsnum \<Rightarrow> string" where
  "spec_severity t h s a = spec_tier (spec_score t h s a)"

definition tiers :: "string set" where
  "tiers = {''LOW'', ''MODERATE'', ''HIGH'', ''CRITICAL'', ''EXTREME''}"

section \<open>The runtime of the handlers\<close>

text \<open>
  What a handler reads from its surroundings: \<open>JSON.parse\<close> on a text (Inl is the
  message of the SyntaxError that the engine throws), the coercion of a number, an array
  or an object to a string (None is a TypeError), the outcome of \<open>fetch\<close>, whether
  \<open>global.io\<close> is set, the level of the logger, whether \<open>NODE_ENV\<close> is
  \<open>development\<close>, and the clock (\<open>new Date().toISOString()\<close> and
  \<open>Date.now().toString()\<close>).
\<close>

datatype fetch_result = Rejected string | Response nat

fun ok :: "fetch_result \<Rightarrow> bool" where
  "ok (Response st) = (200 \<le> st \<and> st \<le> 299)"
| "ok (Rejected m) = False"

record env =
  json_parse :: "string \<Rightarrow> string + jsval"
  coerce_str :: "jsval \<Rightarrow> string option"
  fetch :: "jsval \<Rightarrow> fetch_result"
  io_present :: bool
  logger_level :: nat
  development :: bool
  now_iso :: string
  now_ms :: string

text \<open>
  What a handler does to its surroundings, in order: a line printed by the logger, an
  event emitted to all clients, to a room or to one socket, an outbound fetch. Plain \<open>console.log\<close>
  lines are left out, except that the evaluation of their arguments is kept where it can
  throw. Message texts are the ASCII part of the source's texts.
\<close>

datatype level = ERROR | WARN | INFO | DEBUG

datatype target = AllClients | Room string | Socket string

datatype effect = Log level string | Emit target string jsval | Fetch jsval

fun is_Emit :: "effect \<Rightarrow> bool" where
  "is_Emit (Emit t ev p) = True"
| "is_Emit e = False"

fun is_Fetch :: "effect \<Rightarrow> bool" where
  "is_Fetch (Fetch u) = True"
| "is_Fetch e = False"

record response =
  status :: nat
  body :: jsval

section \<open>utils/logger.js\<close>

fun LOG_LEVELS :: "level \<Rightarrow> nat" where
  "LOG_LEVELS ERROR = 0"
| "LOG_LEVELS WARN = 1"
| "LOG_LEVELS INFO = 2"
| "LOG_LEVELS DEBUG = 3"

text \<open>
  \<open>logger.info(message)\<close> and its siblings print when the logger's level admits the
  line. With a second argument \<open>meta\<close>, \<open>formatMessage\<close> calls \<open>Object.keys(meta)\<close>,
  which throws for null (the default \<open>{}\<close> replaces undefined only); a line that is
  not admitted is not formatted.
\<close>

definition logger :: "env \<Rightarrow> level \<Rightarrow> string \<Rightarrow> effect list" where
  "logger env l msg = (if logger_level env \<ge> LOG_LEVELS l then [Log l msg] else [])"

definition logger_meta :: "env \<Rightarrow> level \<Rightarrow> string \<Rightarrow> jsval \<Rightarrow> js_error + effect list" where
  "logger_meta env l msg meta =
     (if logger_level env \<ge> LOG_LEVELS l
      then (if meta = JNull then Inl (TypeError ''Cannot convert undefined or null to object'')
            else Inr [Log l msg])
      else Inr [])"

section \<open>middleware/errorHandler.js\<close>

text \<open>
  The error object that reaches \<open>errorHandler\<close>: its \<open>name\<close>, \<open>code\<close>,
  \<open>statusCode\<close>, \<open>message\<close>, \<open>stack\<close> and \<open>details\<close>.
\<close>

record http_error =
  err_name :: string
  err_code :: "string option"
  err_statusCode :: "nat option"
  err_message :: string
  err_stack :: string
  err_details :: jsval

definition errorHandler :: "env \<Rightarrow> http_error \<Rightarrow> response \<times> effect list" where
  "errorHandler env err =
     (let logged = logger env ERROR ''Error occurred:'';
          success = (''success'', JBool False);
          timestamp = (''timestamp'', JStr (now_iso env))
      in if err_name err = ''ValidationError'' then
           (\<lparr>status = 400,
             body = JObj [success, (''message'', JStr ''Validation failed''), timestamp,
                          (''details'', err_details err)]\<rparr>, logged)
         else if err_code err = Some ''ResourceNotFoundException'' then
           (\<lparr>status = 404,
             body = JObj [success, (''message'', JStr ''DynamoDB table not found''),
                          timestamp]\<rparr>, logged)
         else if err_code err = Some ''AccessDeniedException'' then
           (\<lparr>status = 403,
             body = JObj [success, (''message'', JStr ''Access denied to DynamoDB''),
                          timestamp]\<rparr>, logged)
         else if err_code err = Some ''ThrottlingException''
                 \<or> err_code err = Some ''ProvisionedThroughputExceededException'' then
           (\<lparr>status = 503,
             body = JObj [success, (''message'', JStr ''Service temporarily unavailable''),
                          timestamp]\<rparr>, logged)
         else
           (\<lparr>status = (case err_statusCode err of
                         None \<Rightarrow> 500
                       | Some code \<Rightarrow> if code = 0 then 500 else code),
             body = JObj ([success, (''message'', JStr ''Internal server error''), timestamp]
                          @ (if development env
                             then [(''details'', JObj [(''message'', JStr (err_message err)),
                                                       (''stack'', JStr (err_stack err))])]
                             else []))\<rparr>, logged))"

section \<open>Strings\<close>

text \<open>
  \<open>toLowerCase\<close> on the ASCII letters (no other character lowers to a letter of
  \<open>fire\<close> alone), and \<open>s.includes(p)\<close>.
\<close>

definition lower_char :: "char \<Rightarrow> char" where
  "lower_char c =
     (case map_of (zip ''ABCDEFGHIJKLMNOPQRSTUVWXYZ'' ''abcdefghijklmnopqrstuvwxyz'') c of
        Some d \<Rightarrow> d
      | None \<Rightarrow> c)"

definition toLowerCase :: "string \<Rightarrow> string" where
  "toLowerCase s = map lower_char s"

fun str_includes :: "string \<Rightarrow> string \<Rightarrow> bool" where
  "str_includes [] p = (p = [])"
| "str_includes (c # cs) p = (take (length p) (c # cs) = p \<or> str_includes cs p)"

section \<open>routes/sns.js\<close>

text \<open>
  The \<open>fireAlertData\<close> object of \<open>processNotification\<close>; \<open>device_text\<close> is the
  device name as the template string of \<open>message\<close> renders it.
\<close>

definition isEmergency :: "jsval \<Rightarrow> jsval" where
  "isEmergency messageData =
     js_or (js_or (js_or (js_or (get_prop messageData ''is_emergency'')
                                (get_prop messageData ''emergency''))
                         (opt_prop (get_prop messageData ''payload'') ''is_emergency''))
                  (opt_prop (get_prop messageData ''payload'') ''emergency''))
           (JBool False)"

definition fireAlertData :: "env \<Rightarrow> jsval \<Rightarrow> string \<Rightarrow> jsval" where
  "fireAlertData env messageData device_text =
     JObj
      [(''type'', JStr ''FIRE_EMERGENCY''),
       (''level'', JStr ''CRITICAL''),
       (''title'', JStr ''WILDFIRE EMERGENCY!''),
       (''message'', JStr (''Emergency detected by '' @ device_text @ ''!'')),
       (''data'', JObj
         [(''deviceId'',
             js_or (js_or (get_prop messageData ''deviceId'') (get_prop messageData ''device''))
                   (JStr ''Unknown Device'')),
          (''temperature'',
             js_or (js_or (opt_prop (get_prop messageData ''payload'') ''temperature'')
                          (get_prop messageData ''temperature''))
                   (JNum (Fin 0))),
          (''humidity'',
             js_or (js_or (opt_prop (get_prop messageData ''payload'') ''humidity'')
                          (get_prop messageData ''humidity''))
                   (JNum (Fin 0))),
          (''smoke_level'',
             js_or (js_or (opt_prop (get_prop messageData ''payload'') ''smoke_level'')
                          (get_prop messageData ''smoke_level''))
                   (JNum (Fin 0))),
          (''air_quality'',
             js_or (js_or (opt_prop (get_prop messageData ''payload'') ''air_quality'')
                          (get_prop messageData ''air_quality''))
                   (JNum (Fin 0))),
          (''location'', JObj
            [(''latitude'',
                js_or (js_or (js_or (opt_prop (opt_prop (get_prop messageData ''payload'') ''gps'') ''latitude'')
                                    (opt_prop (get_prop messageData ''location'') ''latitude''))
                             (opt_prop (get_prop messageData ''gps'') ''latitude''))
                      (JNum (Fin 36.006397))),
             (''longitude'',
                js_or (js_or (js_or (opt_prop (opt_prop (get_prop messageData ''payload'') ''gps'') ''longitude'')
                                    (opt_prop (get_prop messageData ''location'') ''longitude''))
                             (opt_prop (get_prop messageData ''gps'') ''longitude''))
                      (JNum (Fin 10.1715)))]),
          (''timestamp'', js_or (get_prop messageData ''timestamp'') (JStr (now_ms env))),
          (''alertTime'', JStr (now_iso env)),
          (''emergency'', JBool True),
          (''severity'', js_or (get_prop messageData ''severity'') (JStr ''CRITICAL''))]),
       (''timestamp'', JStr (now_iso env)),
       (''urgent'', JBool True)]"

text \<open>
  The block of \<open>processNotification\<close> entered for a fire-related subject. It returns
  the effects made and the error thrown, if any: building the template string of
  \<open>message\<close> throws when the device name cannot be coerced to a string.
\<close>

definition fire_related :: "env \<Rightarrow> jsval \<Rightarrow> effect list \<times> js_error option" where
  "fire_related env messageData =
     (let detected = logger env WARN ''FIRE-RELATED NOTIFICATION DETECTED!''
      in if truthy messageData \<and> typeof_object messageData then
           if truthy (isEmergency messageData) then
             let confirmed = logger env ERROR ''EMERGENCY STATUS CONFIRMED IN MESSAGE DATA!''
             in case ToString (coerce_str env)
                       (js_or (js_or (get_prop messageData ''deviceId'')
                                     (get_prop messageData ''device''))
                              (JStr ''Unknown Device'')) of
                  None \<Rightarrow>
                    (detected @ confirmed,
                     Some (TypeError ''Cannot convert object to primitive value''))
                | Some device_text \<Rightarrow>
                    (detected @ confirmed
                     @ (if io_present env
                        then [Emit AllClients ''fire-emergency''
                                (fireAlertData env messageData device_text)]
                             @ logger env INFO ''FIRE EMERGENCY BROADCASTED TO ALL CLIENTS''
                        else logger env WARN ''WebSocket not available for broadcasting''),
                     None)
           else (detected, None)
         else (detected, None))"

text \<open>The \<open>try\<close> block of \<open>processNotification(subject, messageData)\<close>.\<close>

definition processNotification_try :: "env \<Rightarrow> jsval \<Rightarrow> jsval \<Rightarrow> effect list \<times> js_error option" where
  "processNotification_try env subject messageData =
     (case ToString (coerce_str env) subject of
        None \<Rightarrow> ([], Some (TypeError ''Cannot convert object to primitive value''))
      | Some subject_text \<Rightarrow>
          let processing = logger env INFO (''Processing notification: '' @ subject_text);
              processed = logger env INFO ''Notification processed successfully''
          in if \<not> truthy subject then (processing @ processed, None)
             else
               (case subject of
                  JStr s \<Rightarrow>
                    if str_includes (toLowerCase s) ''fire'' then
                      (case fire_related env messageData of
                         (es, None) \<Rightarrow> (processing @ es @ processed, None)
                       | (es, Some e) \<Rightarrow> (processing @ es, Some e))
                    else (processing @ processed, None)
                | _ \<Rightarrow> (processing, Some (TypeError ''subject.toLowerCase is not a function''))))"

text \<open>\<open>processNotification\<close>: the \<open>catch\<close> logs the error, and nothing is thrown.\<close>

definition processNotification :: "env \<Rightarrow> jsval \<Rightarrow> jsval \<Rightarrow> effect list" where
  "processNotification env subject messageData =
     (case processNotification_try env subject messageData of
        (es, None) \<Rightarrow> es
      | (es, Some e) \<Rightarrow> es @ logger env ERROR ''Error in processNotification:'')"

text \<open>
  The body of a request as the body parsers leave it: a Buffer (its text), a string, or
  a value already parsed (also undefined, when no parser has run).
\<close>

datatype req_body = BufferBody string | StringBody string | ParsedBody jsval

text \<open>
  The body parsers run before a handler (\<open>express.json\<close> and \<open>express.urlencoded\<close>
  of server.js, then those of the route): they hand a body on, or they reject the
  request with an error, which goes to \<open>errorHandler\<close> and never reaches the handler.
\<close>

datatype parser_outcome = ParserError http_error | Parsed req_body

definition JSON_parse :: "env \<Rightarrow> string \<Rightarrow> js_error + jsval" where
  "JSON_parse env text =
     (case json_parse env text of
        Inl engine_message \<Rightarrow> Inl (SyntaxError engine_message)
      | Inr v \<Rightarrow> Inr v)"

definition parse_sns_body :: "env \<Rightarrow> req_body \<Rightarrow> js_error + jsval" where
  "parse_sns_body env b =
     (case b of
        BufferBody bodyString \<Rightarrow> JSON_parse env bodyString
      | StringBody s \<Rightarrow> JSON_parse env s
      | ParsedBody v \<Rightarrow> Inr v)"

text \<open>
  The \<open>SubscriptionConfirmation\<close> case of the webhook. The line that logs the URL
  passes it as \<open>meta\<close>; the fetch and the lines after it are inside their own
  \<open>try\<close>/\<open>catch\<close>.
\<close>

definition confirm_subscription :: "env \<Rightarrow> jsval \<Rightarrow> effect list \<times> js_error option" where
  "confirm_subscription env snsMessage =
     (let received = logger env INFO ''SNS Subscription Confirmation received'';
          subscribeUrl = js_or (js_or (get_prop snsMessage ''SubscribeURL'')
                                      (get_prop snsMessage ''subscribeURL''))
                               (get_prop snsMessage ''SubscribeUrl'')
      in case logger_meta env INFO ''Subscription URL:'' subscribeUrl of
           Inl e \<Rightarrow> (received, Some e)
         | Inr url_line \<Rightarrow>
             if truthy subscribeUrl then
               (received @ url_line @ [Fetch subscribeUrl]
                @ (case fetch env subscribeUrl of
                     Response st \<Rightarrow>
                       if ok (Response st)
                       then logger env INFO ''Auto-confirmed SNS subscription:''
                       else logger env ERROR ''Confirmation request failed:''
                   | Rejected m \<Rightarrow> logger env ERROR ''Failed to auto-confirm subscription:''),
                None)
             else
               (received @ url_line
                @ logger env WARN ''No SubscribeURL found in confirmation message'',
                None))"

text \<open>
  The \<open>Notification\<close> case: \<open>JSON.parse(snsMessage.Message)\<close> inside a \<open>try\<close>
  whose \<open>catch\<close> takes the message as it is.
\<close>

definition parse_message :: "env \<Rightarrow> jsval \<Rightarrow> jsval" where
  "parse_message env m =
     (case ToString (coerce_str env) m of
        None \<Rightarrow> m
      | Some text \<Rightarrow> (case json_parse env text of Inl engine_message \<Rightarrow> m | Inr v \<Rightarrow> v))"

definition sns_dispatch :: "env \<Rightarrow> string option \<Rightarrow> jsval \<Rightarrow> effect list \<times> js_error option" where
  "sns_dispatch env message_type snsMessage =
     (if message_type = Some ''SubscriptionConfirmation'' then
        confirm_subscription env snsMessage
      else if message_type = Some ''Notification'' then
        (logger env INFO ''SNS Notification received''
         @ processNotification env (get_prop snsMessage ''Subject'')
             (parse_message env (get_prop snsMessage ''Message'')),
         None)
      else if message_type = Some ''UnsubscribeConfirmation'' then
        (logger env INFO ''SNS Unsubscribe Confirmation received'', None)
      else (logger env WARN ''Unknown SNS message type:'', None))"

text \<open>
  \<open>router.post('/webhook', ...)\<close>, mounted at \<open>/sns\<close>; \<open>message_type\<close> is the header
  \<open>x-amz-sns-message-type\<close>. The outer \<open>catch\<close> answers 500 with the error's message.
\<close>

definition sns_failed :: "env \<Rightarrow> effect list \<Rightarrow> js_error \<Rightarrow> response \<times> effect list" where
  "sns_failed env es e =
     (\<lparr>status = 500,
       body = JObj [(''success'', JBool False), (''error'', JStr (error_message e))]\<rparr>,
      es @ logger env ERROR ''Error processing SNS notification:'')"

definition sns_webhook :: "env \<Rightarrow> string option \<Rightarrow> req_body \<Rightarrow> response \<times> effect list" where
  "sns_webhook env message_type b =
     (case parse_sns_body env b of
        Inl e \<Rightarrow> sns_failed env [] e
      | Inr snsMessage \<Rightarrow>
          (case read_prop snsMessage ''MessageId'' of
             Inl e \<Rightarrow> sns_failed env [] e
           | Inr messageId \<Rightarrow>
               let received = logger env INFO ''Received SNS notification:''
               in case sns_dispatch env message_type snsMessage of
                    (es, Some e) \<Rightarrow> sns_failed env (received @ es) e
                  | (es, None) \<Rightarrow>
                      (\<lparr>status = 200,
                        body = JObj [(''success'', JBool True),
                                     (''message'', JStr ''SNS notification processed''),
                                     (''messageId'', messageId),
                                     (''timestamp'', JStr (now_iso env))]\<rparr>,
                       received @ es)))"

text \<open>\<open>POST /sns/webhook\<close> as server.js mounts it, body parsers included.\<close>

definition sns_webhook_route ::
  "env \<Rightarrow> string option \<Rightarrow> parser_outcome \<Rightarrow> response \<times> effect list" where
  "sns_webhook_route env message_type outcome =
     (case outcome of
        ParserError err \<Rightarrow> errorHandler env err
      | Parsed b \<Rightarrow> sns_webhook env message_type b)"

section \<open>routes/fireAlerts.js\<close>

text \<open>
  The text handed to \<open>JSON.parse\<close>: \<open>req.body.toString()\<close> under a \<open>text/plain\<close>
  content type, and \<open>req.body\<close> itself (which \<open>JSON.parse\<close> coerces to a string)
  otherwise.
\<close>

definition fire_alert_text :: "env \<Rightarrow> string option \<Rightarrow> req_body \<Rightarrow> js_error + string" where
  "fire_alert_text env content_type b =
     (case b of
        BufferBody s \<Rightarrow> Inr s
      | StringBody s \<Rightarrow> Inr s
      | ParsedBody v \<Rightarrow>
          if (case content_type of None \<Rightarrow> False
              | Some ct \<Rightarrow> ct \<noteq> [] \<and> str_includes ct ''text/plain'') \<and> nullish v
          then Inl (TypeError ''Cannot read properties of null or undefined'')
          else (case ToString (coerce_str env) v of
                  None \<Rightarrow> Inl (TypeError ''Cannot convert object to primitive value'')
                | Some text \<Rightarrow> Inr text))"

definition emergencyBroadcast :: "env \<Rightarrow> jsval \<Rightarrow> string \<Rightarrow> jsval" where
  "emergencyBroadcast env alertData device_text =
     JObj
      [(''type'', JStr ''FIRE_EMERGENCY''),
       (''level'', JStr ''CRITICAL''),
       (''title'', JStr ''WILDFIRE EMERGENCY DETECTED!''),
       (''message'', JStr (''Fire emergency detected by '' @ device_text)),
       (''data'', JObj
         [(''deviceId'', get_prop alertData ''deviceId''),
          (''temperature'', get_prop alertData ''temperature''),
          (''humidity'', get_prop alertData ''humidity''),
          (''smoke_level'', get_prop alertData ''smoke_level''),
          (''air_quality'', get_prop alertData ''air_quality''),
          (''location'', JObj
            [(''latitude'', get_prop (get_prop alertData ''location'') ''latitude''),
             (''longitude'', get_prop (get_prop alertData ''location'') ''longitude'')]),
          (''timestamp'', get_prop alertData ''timestamp''),
          (''alertTime'', get_prop alertData ''alertTime''),
          (''emergency'', JBool True),
          (''severity'', js_or (get_prop alertData ''severity'') (JStr ''CRITICAL''))]),
       (''ui'', JObj
         [(''showPopup'', JBool True), (''autoExpire'', JBool False), (''sound'', JBool True),
          (''vibrate'', JBool True), (''priority'', JStr ''HIGH'')]),
       (''timestamp'', JStr (now_iso env))]"

text \<open>
  The \<open>Notification\<close> branch. \<open>JSON.parse(message.Message)\<close> is not guarded here. The
  \<open>console.log\<close> of the details reads \<open>alertData.deviceId\<close> and
  \<open>alertData.location.latitude\<close> and renders the temperature, the humidity and the
  coordinates as text, and the broadcast's \<open>message\<close> renders the device id: each of
  these throws before anything is emitted.
\<close>

definition fire_alert_notification :: "env \<Rightarrow> jsval \<Rightarrow> effect list \<times> js_error option" where
  "fire_alert_notification env message =
     (case ToString (coerce_str env) (get_prop message ''Message'') of
        None \<Rightarrow> ([], Some (TypeError ''Cannot convert object to primitive value''))
      | Some text \<Rightarrow>
     (case JSON_parse env text of
        Inl e \<Rightarrow> ([], Some e)
      | Inr alertData \<Rightarrow>
          let received = logger env WARN ''FIRE EMERGENCY ALERT RECEIVED FROM AWS LAMBDA''
          in if nullish alertData \<or> nullish (get_prop alertData ''location'') then
               (received, Some (TypeError ''Cannot read properties of null or undefined''))
             else if list_ex (\<lambda>v. ToString (coerce_str env) v = None)
                       [get_prop alertData ''temperature'',
                        get_prop alertData ''humidity'',
                        get_prop (get_prop alertData ''location'') ''latitude'',
                        get_prop (get_prop alertData ''location'') ''longitude''] then
               (received, Some (TypeError ''Cannot convert object to primitive value''))
             else
               (case ToString (coerce_str env) (get_prop alertData ''deviceId'') of
                  None \<Rightarrow>
                    (received, Some (TypeError ''Cannot convert object to primitive value''))
                | Some device_text \<Rightarrow>
                    let broadcast = emergencyBroadcast env alertData device_text
                    in (received
                        @ (if io_present env
                           then [Emit AllClients ''fire-emergency'' broadcast,
                                 Emit (Room (''device-'' @ device_text)) ''device-emergency'' broadcast,
                                 Emit AllClients ''emergency-popup'' broadcast]
                                @ logger env INFO ''FIRE EMERGENCY broadcasted to connected clients''
                           else logger env ERROR
                                  ''WebSocket not available! Cannot broadcast emergency alert!'')
                        @ logger env ERROR ''FIRE EMERGENCY PROCESSED:'',
                        None))))"

text \<open>
  The \<open>SubscriptionConfirmation\<close> branch: the fetch is inside its own \<open>try\<close>, and any
  response counts as a confirmation.
\<close>

definition fire_alert_confirmation :: "env \<Rightarrow> jsval \<Rightarrow> effect list \<times> js_error option" where
  "fire_alert_confirmation env message =
     (let received = logger env INFO ''SNS Subscription confirmation received''
      in case logger_meta env INFO ''Confirmation URL:'' (get_prop message ''SubscribeURL'') of
           Inl e \<Rightarrow> (received, Some e)
         | Inr url_line \<Rightarrow>
             (received @ url_line @ [Fetch (get_prop message ''SubscribeURL'')]
              @ (case fetch env (get_prop message ''SubscribeURL'') of
                   Response st \<Rightarrow> logger env INFO ''SNS Subscription confirmed automatically''
                 | Rejected m \<Rightarrow> logger env ERROR ''Failed to auto-confirm SNS subscription:''),
              None))"

text \<open>
  \<open>router.post('/fire-alert', ...)\<close>, mounted at \<open>/webhook\<close>; \<open>content_type\<close> is the
  header \<open>content-type\<close>. The outer \<open>catch\<close> answers 500 for every error.
\<close>

definition fire_alert_failed :: "env \<Rightarrow> effect list \<Rightarrow> response \<times> effect list" where
  "fire_alert_failed env es =
     (\<lparr>status = 500, body = JObj [(''error'', JStr ''Failed to process fire alert'')]\<rparr>,
      es @ logger env ERROR ''Error processing fire alert webhook:'')"

definition fire_alert :: "env \<Rightarrow> string option \<Rightarrow> req_body \<Rightarrow> response \<times> effect list" where
  "fire_alert env content_type b =
     (case fire_alert_text env content_type b of
        Inl e \<Rightarrow> fire_alert_failed env []
      | Inr text \<Rightarrow>
     (case JSON_parse env text of
        Inl e \<Rightarrow> fire_alert_failed env []
      | Inr message \<Rightarrow>
     (case read_prop message ''Type'' of
        Inl e \<Rightarrow> fire_alert_failed env []
      | Inr message_Type \<Rightarrow>
     (case logger_meta env INFO ''SNS message received:'' message_Type of
        Inl e \<Rightarrow> fire_alert_failed env []
      | Inr received \<Rightarrow>
          if message_Type = JStr ''SubscriptionConfirmation'' then
            (case fire_alert_confirmation env message of
               (es, Some e) \<Rightarrow> fire_alert_failed env (received @ es)
             | (es, None) \<Rightarrow>
                 (\<lparr>status = 200, body = JStr ''SNS Subscription processed''\<rparr>, received @ es))
          else if message_Type = JStr ''Notification'' then
            (case fire_alert_notification env message of
               (es, Some e) \<Rightarrow> fire_alert_failed env (received @ es)
             | (es, None) \<Rightarrow> (\<lparr>status = 200, body = JStr ''OK''\<rparr>, received @ es))
          else (\<lparr>status = 200, body = JStr ''OK''\<rparr>, received)))))"

text \<open>\<open>POST /webhook/fire-alert\<close> as server.js mounts it, body parsers included.\<close>

definition fire_alert_route ::
  "env \<Rightarrow> string option \<Rightarrow> parser_outcome \<Rightarrow> response \<times> effect list" where
  "fire_alert_route env content_type outcome =
     (case outcome of
        ParserError err \<Rightarrow> errorHandler env err
      | Parsed b \<Rightarrow> fire_alert env content_type b)"

section \<open>websocket/socketHandler.js\<close>

text \<open>
  The hub: the connected sockets and the rooms each has joined. A socket is always in
  the room named by its own id.
\<close>

record hub =
  connected :: "string list"
  joined :: "(string \<times> string) list"

definition subscribe_fire_alerts :: "env \<Rightarrow> hub \<Rightarrow> string \<Rightarrow> hub \<times> effect list" where
  "subscribe_fire_alerts env h socket_id =
     (h\<lparr>joined := (socket_id, ''fire-alerts'') # joined h\<rparr>,
      logger env INFO ''Client subscribed to fire emergency alerts''
      @ [Emit (Socket socket_id) ''fire-alerts-subscription-confirmed''
           (JObj [(''message'', JStr ''Subscribed to fire emergency alerts''),
                  (''timestamp'', JStr (now_iso env))])])"

definition unsubscribe_fire_alerts :: "env \<Rightarrow> hub \<Rightarrow> string \<Rightarrow> hub \<times> effect list" where
  "unsubscribe_fire_alerts env h socket_id =
     (h\<lparr>joined := filter (\<lambda>m. m \<noteq> (socket_id, ''fire-alerts'')) (joined h)\<rparr>,
      logger env INFO ''Client unsubscribed from fire emergency alerts'')"

text \<open>Who receives an emitted event.\<close>

fun receives :: "hub \<Rightarrow> string \<Rightarrow> target \<Rightarrow> bool" where
  "receives h socket_id AllClients = (socket_id \<in> set (connected h))"
| "receives h socket_id (Room r) =
     (socket_id \<in> set (connected h) \<and> (r = socket_id \<or> (socket_id, r) \<in> set (joined h)))"
| "receives h socket_id (Socket s) = (socket_id \<in> set (connected h) \<and> s = socket_id)"

fun target_of :: "effect \<Rightarrow> target option" where
  "target_of (Emit t ev p) = Some t"
| "target_of e = None"

text \<open>\<open>broadcast.fireEmergency(alertData)\<close>.\<close>

definition fireEmergency :: "env \<Rightarrow> jsval \<Rightarrow> js_error + effect list" where
  "fireEmergency env alertData =
     (if nullish alertData then Inl (TypeError ''Cannot read properties of null or undefined'')
      else
        case ToString (coerce_str env) (get_prop alertData ''deviceId'') of
          None \<Rightarrow> Inl (TypeError ''Cannot convert object to primitive value'')
        | Some device_text \<Rightarrow>
            let emergencyBroadcast =
                  JObj [(''type'', JStr ''FIRE_EMERGENCY''),
                        (''level'', JStr ''CRITICAL''),
                        (''title'', JStr ''WILDFIRE EMERGENCY!''),
                        (''message'', JStr (''Fire emergency detected by '' @ device_text)),
                        (''data'', alertData),
                        (''ui'', JObj
                          [(''showPopup'', JBool True), (''autoExpire'', JBool False),
                           (''sound'', JBool True), (''vibrate'', JBool True),
                           (''priority'', JStr ''HIGH'')]),
                        (''timestamp'', JStr (now_iso env))]
            in Inr ([Emit AllClients ''fire-emergency'' emergencyBroadcast,
                     Emit AllClients ''emergency-popup'' emergencyBroadcast]
                    @ (if truthy (get_prop alertData ''deviceId'')
                       then [Emit (Room (''device-'' @ device_text)) ''device-emergency''
                               emergencyBroadcast]
                       else [])
                    @ logger env ERROR (''FIRE EMERGENCY broadcasted for device: '' @ device_text)))"

text \<open>
  The runtime of the examples. Its \<open>JSON.parse\<close> knows the texts below; on the blank
  text, the only unparsable one the examples give it, it fails with the engine's message
  for an input that ends early. It renders an object as \<open>[object Object]\<close>, and its
  fetch is answered with status 200; in the second runtime the fetch is rejected, in the
  third it is answered with status 500.
\<close>

definition json_string :: "string \<Rightarrow> string" where
  \<open>json_string s =
     ''"'' @ concat (map (\<lambda>c. if c = CHR ''"'' then [CHR 0x5C, c] else [c]) s) @ ''"''\<close>

definition notification_text :: string where
  \<open>notification_text = ''{"Type":"Notification","Message":"{}"}''\<close>

definition blank_notification_text :: string where
  \<open>blank_notification_text = ''{"Type":"Notification","Message":" "}''\<close>

definition confirmation_text :: string where
  \<open>confirmation_text =
     ''{"Type":"SubscriptionConfirmation","SubscribeURL":"https://sns.example/confirm"}''\<close>

definition alert_text :: string where
  \<open>alert_text = ''{"deviceId":"Node 1","location":{}}''\<close>

definition routine_check_text :: string where
  \<open>routine_check_text =
     ''{"Type":"Notification","Subject":"Routine Check","Message":''
     @ json_string alert_text @ ''}''\<close>

definition example_parse :: "string \<Rightarrow> string + jsval" where
  "example_parse text =
     (if text = ''{}'' then Inr (JObj [])
      else if text = notification_text
      then Inr (JObj [(''Type'', JStr ''Notification''), (''Message'', JStr ''{}'')])
      else if text = blank_notification_text
      then Inr (JObj [(''Type'', JStr ''Notification''), (''Message'', JStr '' '')])
      else if text = confirmation_text
      then Inr (JObj [(''Type'', JStr ''SubscriptionConfirmation''),
                      (''SubscribeURL'', JStr ''https://sns.example/confirm'')])
      else if text = alert_text
      then Inr (JObj [(''deviceId'', JStr ''Node 1''), (''location'', JObj [])])
      else if text = routine_check_text
      then Inr (JObj [(''Type'', JStr ''Notification''), (''Subject'', JStr ''Routine Check''),
                      (''Message'', JStr alert_text)])
      else Inl ''Unexpected end of JSON input'')"

definition example_coerce_str :: "jsval \<Rightarrow> string option" where
  "example_coerce_str v = (case v of JObj kvs \<Rightarrow> Some ''[object Object]'' | _ \<Rightarrow> None)"

definition example_env :: env where
  "example_env =
     \<lparr>json_parse = example_parse, coerce_str = example_coerce_str,
      fetch = (\<lambda>url. Response 200), io_present = True, logger_level = 2,
      development = False,
      now_iso = ''2025-01-01T00:00:00.000Z'', now_ms = ''1735689600000''\<rparr>"

definition offline_env :: env where
  "offline_env = example_env\<lparr>fetch := (\<lambda>url. Rejected ''request failed'')\<rparr>"

definition refused_env :: env where
  "refused_env = example_env\<lparr>fetch := (\<lambda>url. Response 500)\<rparr>"

text \<open>The error with which the JSON body parser rejects a malformed body.\<close>

definition parse_failed :: http_error where
  "parse_failed =
     \<lparr>err_name = ''SyntaxError'', err_code = None, err_statusCode = Some 400,
      err_message = ''Unexpected end of JSON input'', err_stack = ''SyntaxError'',
      err_details = JUndefined\<rparr>"

section \<open>Notions used in the statements\<close>

text \<open>The first truthy value of a list of sources, and a default when there is none.\<close>

fun first_truthy :: "jsval list \<Rightarrow> jsval \<Rightarrow> jsval" where
  "first_truthy [] d = d"
| "first_truthy (v # vs) d = (if truthy v then v else first_truthy vs d)"

text \<open>The device name that \<open>processNotification\<close> reports.\<close>

definition alert_device :: "jsval \<Rightarrow> jsval" where
  "alert_device messageData =
     js_or (js_or (get_prop messageData ''deviceId'') (get_prop messageData ''device''))
           (JStr ''Unknown Device'')"

text \<open>The subject is a string that contains \<open>fire\<close> once lowered.\<close>

definition subject_matches :: "jsval \<Rightarrow> bool" where
  "subject_matches subject =
     (case subject of JStr s \<Rightarrow> str_includes (toLowerCase s) ''fire'' | _ \<Rightarrow> False)"

text \<open>The targets of the events in a list of effects, in order.\<close>

definition emit_targets :: "effect list \<Rightarrow> target list" where
  "emit_targets es = List.map_filter target_of es"

text \<open>The confirmation URL that the webhook reads from the envelope.\<close>

definition subscribeUrl_of :: "jsval \<Rightarrow> jsval" where
  "subscribeUrl_of snsMessage =
     js_or (js_or (get_prop snsMessage ''SubscribeURL'') (get_prop snsMessage ''subscribeURL''))
           (get_prop snsMessage ''SubscribeUrl'')"

text \<open>The names of the events that a socket receives from a list of effects, in order.\<close>

fun event_for :: "hub \<Rightarrow> string \<Rightarrow> effect \<Rightarrow> string option" where
  "event_for h socket_id (Emit t ev p) = (if receives h socket_id t then Some ev else None)"
| "event_for h socket_id e = None"

definition delivered :: "hub \<Rightarrow> string \<Rightarrow> effect list \<Rightarrow> string list" where
  "delivered h socket_id es = List.map_filter (event_for h socket_id) es"

text \<open>The coordinates carried by an emergency event.\<close>

definition latitude_of :: "jsval \<Rightarrow> jsval" where
  "latitude_of p = get_prop (get_prop (get_prop p ''data'') ''location'') ''latitude''"

definition longitude_of :: "jsval \<Rightarrow> jsval" where
  "longitude_of p = get_prop (get_prop (get_prop p ''data'') ''location'') ''longitude''"

section \<open>Properties of the alert history\<close>

lemma add_all_snoc: "add_all (xs @ [x]) = addToHistory (add_all xs) x"
  by (simp add: add_all_def)

lemma add_all_state:
  "alertHistory (add_all xs) = take 100 (rev xs) \<and> maxHistorySize (add_all xs) = 100"
proof (induction xs rule: rev_induct)
  case Nil
  then show ?case by (simp add: add_all_def new_FireAlertService_def)
next
  case (snoc x xs)
  then show ?case
    by (auto simp: add_all_snoc addToHistory_def Let_def take_Cons' min_def)
qed

lemma slice0_all: "int (length xs) \<le> e \<Longrightarrow> slice0 xs e = xs"
  by (simp add: slice0_def Let_def)

lemma recent_after_overflow:
  assumes "length xs = 100 + k"
  shows "fst (getRecentAlerts (add_all xs) (Some 100)) = rev (drop k xs)"
proof -
  have "alertHistory (add_all xs) = take 100 (rev xs)"
    by (simp add: add_all_state)
  also have "\<dots> = rev (drop k xs)"
    using assms by (simp add: take_rev)
  finally have h: "alertHistory (add_all xs) = rev (drop k xs)" .
  have "length (rev (drop k xs)) = 100"
    using assms by simp
  then show ?thesis
    by (simp add: getRecentAlerts_def h slice0_all)
qed

lemma evicted_absent:
  assumes "distinct xs"
  shows "set (take k xs) \<inter> set (drop k xs) = {}"
proof -
  have "distinct (take k xs @ drop k xs)"
    using assms by simp
  then show ?thesis
    unfolding distinct_append by simp
qed

text \<open>
  C7. On a service with the constructor's bound of 100, after any run of
  \<open>addToHistory\<close> calls the history holds at most 100 alerts. After \<open>100 + k\<close> calls,
  \<open>getRecentAlerts(100)\<close> is exactly the last 100 alerts added, newest first, so the
  first \<open>k\<close> alerts added are gone (no alert among them is returned when the alerts
  are pairwise different). \<open>getRecentAlerts\<close> leaves the service as it is, and on an
  empty history it returns the empty array for every limit.
\<close>

theorem history_ring_bounded:
  "length (alertHistory (add_all xs)) \<le> 100
   \<and> (length xs = 100 + k \<longrightarrow>
        fst (getRecentAlerts (add_all xs) (Some 100)) = rev (drop k xs)
        \<and> (distinct xs \<longrightarrow>
             set (take k xs) \<inter> set (fst (getRecentAlerts (add_all xs) (Some 100))) = {}))
   \<and> snd (getRecentAlerts s limit) = s
   \<and> (alertHistory s = [] \<longrightarrow> fst (getRecentAlerts s limit) = [])"
proof -
  have a: "length (alertHistory (add_all xs)) \<le> 100"
    by (simp add: add_all_state)
  have b: "snd (getRecentAlerts s limit) = s"
    by (simp add: getRecentAlerts_def)
  have c: "alertHistory s = [] \<longrightarrow> fst (getRecentAlerts s limit) = []"
    by (simp add: getRecentAlerts_def slice0_def)
  show ?thesis
    using a b c by (simp add: recent_after_overflow evicted_absent)
qed

theorem history_ring_bounded_witness:
  "length [0..<101] = 100 + 1 \<and> distinct [0..<101]
   \<and> alertHistory (new_FireAlertService () :: nat FireAlertService) = []
   \<and> length (alertHistory (add_all [0..<101])) \<le> 100
   \<and> fst (getRecentAlerts (add_all [0..<101]) (Some 100)) = rev (drop 1 [0..<101])
   \<and> set (take 1 [0..<101]) \<inter> set (fst (getRecentAlerts (add_all [0..<101]) (Some 100))) = {}
   \<and> fst (getRecentAlerts (new_FireAlertService () :: nat FireAlertService) None) = []"
  using history_ring_bounded [of "[0..<101]" 1 "new_FireAlertService ()" None]
  by (auto simp add: new_FireAlertService_def)

section \<open>Properties of the severity score\<close>

lemma temperature_chain:
  "score_chain [(Inr (num_gt t 60), 3), (Inr (num_gt t 45), 2), (Inr (num_gt t 35), 1)] s
     = Inr (s + spec_points [(35, 1), (45, 2), (60, 3)] (num_gt t))"
  by (cases t) (auto simp: spec_points_def)

lemma humidity_chain:
  "score_chain [(Inr (num_lt h 20), 3), (Inr (num_lt h 35), 2), (Inr (num_lt h 50), 1)] s
     = Inr (s + spec_points [(50, 1), (35, 2), (20, 3)] (num_lt h))"
  by (cases h) (auto simp: spec_points_def)

lemma smoke_chain:
  "score_chain [(Inr (num_gt k 300), 3), (Inr (num_gt k 200), 2), (Inr (num_gt k 100), 1)] s
     = Inr (s + spec_points [(100, 1), (200, 2), (300, 3)] (num_gt k))"
  by (cases k) (auto simp: spec_points_def)

lemma air_chain:
  "score_chain [(Inr (num_gt a 250), 2), (Inr (num_gt a 150), 1)] s
     = Inr (s + spec_points [(150, 1), (250, 2)] (num_gt a))"
  by (cases a) (auto simp: spec_points_def)

lemma js_gt_num: "js_gt cn (JNum n) c = Inr (num_gt n c)"
  by (simp add: js_gt_def)

lemma js_lt_num: "js_lt cn (JNum n) c = Inr (num_lt n c)"
  by (simp add: js_lt_def)

lemma severity_level_spec: "severity_level n = spec_tier n"
  by (simp add: severity_level_def spec_tier_def)

text \<open>
  C1. For every payload whose \<open>temperature\<close>, \<open>humidity\<close>, \<open>smoke_level\<close> and
  \<open>air_quality\<close> are numbers, \<open>calculateSeverity\<close> returns the severity of the
  specification's table: per metric the points of the highest tier met, summed, and
  the sum mapped to EXTREME from 8, CRITICAL from 6, HIGH from 4, MODERATE from 2 and
  LOW below.
\<close>

theorem calculateSeverity_refines_spec:
  assumes "get_prop data ''temperature'' = JNum t"
    and "get_prop data ''humidity'' = JNum h"
    and "get_prop data ''smoke_level'' = JNum s"
    and "get_prop data ''air_quality'' = JNum a"
  shows "calculateSeverity cn data = Inr (spec_severity t h s a)"
proof -
  from assms(1) have "\<not> nullish data"
    by (auto simp: nullish_def)
  then show ?thesis
    unfolding calculateSeverity_def Let_def spec_severity_def spec_score_def assms
      js_gt_num js_lt_num temperature_chain humidity_chain smoke_chain air_chain
      severity_level_spec
    by simp
qed

theorem calculateSeverity_refines_spec_witness:
  "get_prop (JObj [(''temperature'', JNum (Fin 78.5)), (''humidity'', JNum (Fin 25.2)),
                   (''smoke_level'', JNum (Fin 850)), (''air_quality'', JNum (Fin 420))])
     ''temperature'' = JNum (Fin 78.5)
   \<and> calculateSeverity coercion_throws
        (JObj [(''temperature'', JNum (Fin 78.5)), (''humidity'', JNum (Fin 25.2)),
               (''smoke_level'', JNum (Fin 850)), (''air_quality'', JNum (Fin 420))])
      = Inr (spec_severity (Fin 78.5) (Fin 25.2) (Fin 850) (Fin 420))
   \<and> spec_severity (Fin 78.5) (Fin 25.2) (Fin 850) (Fin 420) = ''EXTREME''"
  using calculateSeverity_refines_spec
    [of "JObj [(''temperature'', JNum (Fin 78.5)), (''humidity'', JNum (Fin 25.2)),
               (''smoke_level'', JNum (Fin 850)), (''air_quality'', JNum (Fin 420))]"
        "Fin 78.5" "Fin 25.2" "Fin 850" "Fin 420" coercion_throws]
  by (simp add: spec_severity_def spec_score_def spec_points_def spec_tier_def)

section \<open>Properties of processNotification\<close>

lemma logger_no_emit: "filter is_Emit (logger env l m) = []"
  by (simp add: logger_def)

lemma fire_related_emits:
  "filter is_Emit (fst (fire_related env md)) =
     (if truthy md \<and> typeof_object md \<and> truthy (isEmergency md) \<and> io_present env
      then (case ToString (coerce_str env) (alert_device md) of
              Some d \<Rightarrow> [Emit AllClients ''fire-emergency'' (fireAlertData env md d)]
            | None \<Rightarrow> [])
      else [])"
  by (simp add: fire_related_def Let_def logger_no_emit alert_device_def split: option.splits)

lemma processNotification_try_emits:
  "filter is_Emit (fst (processNotification_try env subject md)) =
     (if subject_matches subject then filter is_Emit (fst (fire_related env md)) else [])"
proof (cases "ToString (coerce_str env) subject")
  case None
  then have "\<not> subject_matches subject"
    by (cases subject) (simp_all add: subject_matches_def)
  with None show ?thesis
    by (simp add: processNotification_try_def)
next
  case (Some subject_text)
  show ?thesis
  proof (cases subject)
    case (JStr s)
    obtain es r where fr: "fire_related env md = (es, r)"
      by (cases "fire_related env md")
    show ?thesis
      using JStr fr
      by (cases r)
         (simp_all add: processNotification_try_def Let_def logger_no_emit subject_matches_def
            toLowerCase_def)
  qed (use Some in \<open>simp_all add: processNotification_try_def Let_def logger_no_emit
         subject_matches_def\<close>)
qed

lemma processNotification_emits:
  "filter is_Emit (processNotification env subject md) =
     (if subject_matches subject then filter is_Emit (fst (fire_related env md)) else [])"
proof -
  obtain es r where pt: "processNotification_try env subject md = (es, r)"
    by (cases "processNotification_try env subject md")
  have "filter is_Emit (processNotification env subject md) = filter is_Emit es"
    using pt by (cases r) (simp_all add: processNotification_def logger_no_emit)
  moreover have "filter is_Emit es = filter is_Emit (fst (processNotification_try env subject md))"
    using pt by simp
  ultimately show ?thesis
    by (simp only: processNotification_try_emits)
qed

lemma emitted_payload:
  assumes "Emit t ev p \<in> set (processNotification env subject md)"
  shows "\<exists>d. p = fireAlertData env md d \<and> t = AllClients \<and> ev = ''fire-emergency''"
proof -
  from assms have "Emit t ev p \<in> set (filter is_Emit (processNotification env subject md))"
    by simp
  then have "Emit t ev p \<in> set (filter is_Emit (fst (fire_related env md)))"
    by (simp only: processNotification_emits split: if_splits) simp
  then show ?thesis
    by (simp only: fire_related_emits split: if_splits option.splits) auto
qed

lemma processNotification_broadcast:
  assumes "subject_matches subject" and "truthy md" and "typeof_object md"
    and "truthy (isEmergency md)" and "io_present env"
    and "ToString (coerce_str env) (alert_device md) = Some d"
  shows "Emit AllClients ''fire-emergency'' (fireAlertData env md d)
           \<in> set (processNotification env subject md)"
proof -
  have "filter is_Emit (processNotification env subject md)
          = [Emit AllClients ''fire-emergency'' (fireAlertData env md d)]"
    using assms by (simp add: processNotification_emits fire_related_emits)
  then have "Emit AllClients ''fire-emergency'' (fireAlertData env md d)
               \<in> set (filter is_Emit (processNotification env subject md))"
    by simp
  then show ?thesis
    by simp
qed

lemma fire_alert_subject: "subject_matches (JStr ''Fire Alert'')"
  unfolding subject_matches_def by code_simp

lemma truthy_js_or: "truthy (js_or a b) \<longleftrightarrow> truthy a \<or> truthy b"
  by (simp add: js_or_def)

lemma fireAlertData_fields:
  "get_prop (get_prop (fireAlertData env md d) ''data'') ''deviceId''
     = first_truthy [get_prop md ''deviceId'', get_prop md ''device''] (JStr ''Unknown Device'')"
  "get_prop (get_prop (fireAlertData env md d) ''data'') ''temperature''
     = first_truthy [opt_prop (get_prop md ''payload'') ''temperature'', get_prop md ''temperature''] (JNum (Fin 0))"
  "get_prop (get_prop (fireAlertData env md d) ''data'') ''humidity''
     = first_truthy [opt_prop (get_prop md ''payload'') ''humidity'', get_prop md ''humidity''] (JNum (Fin 0))"
  "get_prop (get_prop (fireAlertData env md d) ''data'') ''smoke_level''
     = first_truthy [opt_prop (get_prop md ''payload'') ''smoke_level'', get_prop md ''smoke_level''] (JNum (Fin 0))"
  "get_prop (get_prop (fireAlertData env md d) ''data'') ''air_quality''
     = first_truthy [opt_prop (get_prop md ''payload'') ''air_quality'', get_prop md ''air_quality''] (JNum (Fin 0))"
  by (simp_all add: fireAlertData_def js_or_def)

lemma fireAlertData_location:
  "latitude_of (fireAlertData env md d)
     = first_truthy [opt_prop (opt_prop (get_prop md ''payload'') ''gps'') ''latitude'',
                     opt_prop (get_prop md ''location'') ''latitude'',
                     opt_prop (get_prop md ''gps'') ''latitude''] (JNum (Fin 36.006397))"
  "longitude_of (fireAlertData env md d)
     = first_truthy [opt_prop (opt_prop (get_prop md ''payload'') ''gps'') ''longitude'',
                     opt_prop (get_prop md ''location'') ''longitude'',
                     opt_prop (get_prop md ''gps'') ''longitude''] (JNum (Fin 10.1715))"
  by (simp_all add: fireAlertData_def js_or_def latitude_of_def longitude_of_def)

lemma isEmergency_first_truthy:
  "isEmergency md = first_truthy [get_prop md ''is_emergency'', get_prop md ''emergency'',
       opt_prop (get_prop md ''payload'') ''is_emergency'',
       opt_prop (get_prop md ''payload'') ''emergency''] (JBool False)"
  by (simp add: isEmergency_def js_or_def)


text \<open>
  C3, as the code has it. The flag \<open>isEmergency\<close> of \<open>processNotification\<close> is truthy
  exactly when one of the four raw flags (\<open>is_emergency\<close>, \<open>emergency\<close>,
  \<open>payload.is_emergency\<close>, \<open>payload.emergency\<close>) is truthy, and for a fire-related
  subject, an object payload, a renderable device name and an available hub the
  emergency is broadcast exactly when the flag is truthy. No severity enters the decision.
\<close>

theorem isEmergency_flags_only:
  "(truthy (isEmergency md) \<longleftrightarrow>
      truthy (get_prop md ''is_emergency'') \<or> truthy (get_prop md ''emergency'')
      \<or> truthy (opt_prop (get_prop md ''payload'') ''is_emergency'')
      \<or> truthy (opt_prop (get_prop md ''payload'') ''emergency''))
   \<and> (subject_matches subject \<and> truthy md \<and> typeof_object md \<and> io_present env
        \<and> ToString (coerce_str env) (alert_device md) \<noteq> None \<longrightarrow>
       (filter is_Emit (processNotification env subject md) \<noteq> [] \<longleftrightarrow> truthy (isEmergency md)))"
  by (auto simp: isEmergency_def truthy_js_or processNotification_emits fire_related_emits)

theorem isEmergency_flags_only_witness:
  "subject_matches (JStr ''Fire Alert'')
   \<and> truthy (JObj [(''device'', JStr ''Node 1''), (''is_emergency'', JBool True)])
   \<and> typeof_object (JObj [(''device'', JStr ''Node 1''), (''is_emergency'', JBool True)])
   \<and> io_present example_env
   \<and> ToString (coerce_str example_env)
        (alert_device (JObj [(''device'', JStr ''Node 1''), (''is_emergency'', JBool True)])) \<noteq> None
   \<and> truthy (get_prop (JObj [(''device'', JStr ''Node 1''), (''is_emergency'', JBool True)]) ''is_emergency'')
   \<and> truthy (isEmergency (JObj [(''device'', JStr ''Node 1''), (''is_emergency'', JBool True)]))
   \<and> filter is_Emit (processNotification example_env (JStr ''Fire Alert'')
        (JObj [(''device'', JStr ''Node 1''), (''is_emergency'', JBool True)])) \<noteq> []"
  using isEmergency_flags_only
    [of "JObj [(''device'', JStr ''Node 1''), (''is_emergency'', JBool True)]"
        "JStr ''Fire Alert''" example_env]
  by (simp add: fire_alert_subject example_env_def alert_device_def js_or_def)


text \<open>
  C3 as stated fails: a payload with no flag whose readings score EXTREME (temperature
  95.5, humidity 15.2, smoke level 950) is not an emergency for \<open>processNotification\<close>,
  and nothing is broadcast.
\<close>

theorem high_score_without_flag_counterexample:
  "\<not> truthy (isEmergency
        (JObj [(''temperature'', JNum (Fin 95.5)), (''humidity'', JNum (Fin 15.2)),
               (''smoke_level'', JNum (Fin 950))]))
   \<and> calculateSeverity coercion_throws
        (JObj [(''temperature'', JNum (Fin 95.5)), (''humidity'', JNum (Fin 15.2)),
               (''smoke_level'', JNum (Fin 950))]) = Inr ''EXTREME''
   \<and> filter is_Emit (processNotification example_env (JStr ''Fire Alert'')
        (JObj [(''temperature'', JNum (Fin 95.5)), (''humidity'', JNum (Fin 15.2)),
               (''smoke_level'', JNum (Fin 950))])) = []"
  by (simp add: processNotification_emits fire_related_emits isEmergency_def js_or_def
        opt_prop_def nullish_def calculateSeverity_def js_gt_def js_lt_def severity_level_def)


text \<open>
  C5, as the code has it. In the event that \<open>processNotification\<close> broadcasts, every
  field is the first truthy source in the code's own order: the flag probes
  \<open>is_emergency\<close>, \<open>emergency\<close>, \<open>payload.is_emergency\<close>, \<open>payload.emergency\<close>; the
  device id probes the top-level \<open>deviceId\<close> and \<open>device\<close> only; each of the four
  readings probes \<open>payload.<field>\<close> before the top-level field and defaults to 0; each
  coordinate probes \<open>payload.gps\<close>, then \<open>location\<close>, then \<open>gps\<close>.
\<close>

theorem extraction_order:
  assumes "Emit t ev p \<in> set (processNotification env subject md)"
  shows "isEmergency md
           = first_truthy [get_prop md ''is_emergency'', get_prop md ''emergency'',
               opt_prop (get_prop md ''payload'') ''is_emergency'',
               opt_prop (get_prop md ''payload'') ''emergency''] (JBool False)
       \<and> get_prop (get_prop p ''data'') ''deviceId''
           = first_truthy [get_prop md ''deviceId'', get_prop md ''device'']
               (JStr ''Unknown Device'')
       \<and> get_prop (get_prop p ''data'') ''temperature''
           = first_truthy [opt_prop (get_prop md ''payload'') ''temperature'',
               get_prop md ''temperature''] (JNum (Fin 0))
       \<and> get_prop (get_prop p ''data'') ''humidity''
           = first_truthy [opt_prop (get_prop md ''payload'') ''humidity'',
               get_prop md ''humidity''] (JNum (Fin 0))
       \<and> get_prop (get_prop p ''data'') ''smoke_level''
           = first_truthy [opt_prop (get_prop md ''payload'') ''smoke_level'',
               get_prop md ''smoke_level''] (JNum (Fin 0))
       \<and> get_prop (get_prop p ''data'') ''air_quality''
           = first_truthy [opt_prop (get_prop md ''payload'') ''air_quality'',
               get_prop md ''air_quality''] (JNum (Fin 0))
       \<and> latitude_of p
           = first_truthy [opt_prop (opt_prop (get_prop md ''payload'') ''gps'') ''latitude'',
               opt_prop (get_prop md ''location'') ''latitude'',
               opt_prop (get_prop md ''gps'') ''latitude''] (JNum (Fin 36.006397))
       \<and> longitude_of p
           = first_truthy [opt_prop (opt_prop (get_prop md ''payload'') ''gps'') ''longitude'',
               opt_prop (get_prop md ''location'') ''longitude'',
               opt_prop (get_prop md ''gps'') ''longitude''] (JNum (Fin 10.1715))"
proof -
  from assms obtain d where p: "p = fireAlertData env md d"
    using emitted_payload by blast
  show ?thesis
    unfolding p
    by (simp only: fireAlertData_fields fireAlertData_location isEmergency_first_truthy)
qed


theorem extraction_order_witness:
  "Emit AllClients ''fire-emergency''
     (fireAlertData example_env
        (JObj [(''is_emergency'', JBool True), (''temperature'', JNum (Fin 10)),
               (''payload'', JObj [(''temperature'', JNum (Fin 20))])])
        ''Unknown Device'')
     \<in> set (processNotification example_env (JStr ''Fire Alert'')
          (JObj [(''is_emergency'', JBool True), (''temperature'', JNum (Fin 10)),
                 (''payload'', JObj [(''temperature'', JNum (Fin 20))])]))
   \<and> get_prop (get_prop
        (fireAlertData example_env
           (JObj [(''is_emergency'', JBool True), (''temperature'', JNum (Fin 10)),
                  (''payload'', JObj [(''temperature'', JNum (Fin 20))])])
           ''Unknown Device'') ''data'') ''temperature'' = JNum (Fin 20)"
proof -
  have h: "Emit AllClients ''fire-emergency''
     (fireAlertData example_env
        (JObj [(''is_emergency'', JBool True), (''temperature'', JNum (Fin 10)),
               (''payload'', JObj [(''temperature'', JNum (Fin 20))])])
        ''Unknown Device'')
     \<in> set (processNotification example_env (JStr ''Fire Alert'')
          (JObj [(''is_emergency'', JBool True), (''temperature'', JNum (Fin 10)),
                 (''payload'', JObj [(''temperature'', JNum (Fin 20))])]))"
    by (rule processNotification_broadcast)
       (simp_all add: fire_alert_subject isEmergency_def js_or_def example_env_def
          alert_device_def)
  show ?thesis
    using h extraction_order [OF h] by (simp add: opt_prop_def nullish_def)
qed

text \<open>
  C5 as stated fails: with \<open>temperature\<close> 10 at the top level and 20 under
  \<open>payload\<close>, the broadcast carries 20.
\<close>

theorem nested_reading_wins_counterexample:
  "filter is_Emit (processNotification example_env (JStr ''Fire Alert'')
      (JObj [(''is_emergency'', JBool True), (''temperature'', JNum (Fin 10)),
             (''payload'', JObj [(''temperature'', JNum (Fin 20))])]))
     = [Emit AllClients ''fire-emergency''
          (fireAlertData example_env
             (JObj [(''is_emergency'', JBool True), (''temperature'', JNum (Fin 10)),
                    (''payload'', JObj [(''temperature'', JNum (Fin 20))])])
             ''Unknown Device'')]
   \<and> get_prop (get_prop
        (fireAlertData example_env
           (JObj [(''is_emergency'', JBool True), (''temperature'', JNum (Fin 10)),
                  (''payload'', JObj [(''temperature'', JNum (Fin 20))])])
           ''Unknown Device'') ''data'') ''temperature'' = JNum (Fin 20)"
  by (simp add: processNotification_emits fire_related_emits fire_alert_subject
        isEmergency_def js_or_def example_env_def alert_device_def fireAlertData_fields
        opt_prop_def nullish_def)


text \<open>
  C10. In every event that \<open>processNotification\<close> broadcasts, the latitude is
  36.006397 whenever \<open>payload.gps.latitude\<close>, \<open>location.latitude\<close> and
  \<open>gps.latitude\<close> are all falsy (absent, or the number 0), whatever the longitude is,
  and the longitude is 10.1715 under the same condition on its three sources.
\<close>

theorem location_fallback_per_coordinate:
  assumes "Emit t ev p \<in> set (processNotification env subject md)"
  shows "(\<not> truthy (opt_prop (opt_prop (get_prop md ''payload'') ''gps'') ''latitude'')
          \<and> \<not> truthy (opt_prop (get_prop md ''location'') ''latitude'')
          \<and> \<not> truthy (opt_prop (get_prop md ''gps'') ''latitude'')
          \<longrightarrow> latitude_of p = JNum (Fin 36.006397))
       \<and> (\<not> truthy (opt_prop (opt_prop (get_prop md ''payload'') ''gps'') ''longitude'')
          \<and> \<not> truthy (opt_prop (get_prop md ''location'') ''longitude'')
          \<and> \<not> truthy (opt_prop (get_prop md ''gps'') ''longitude'')
          \<longrightarrow> longitude_of p = JNum (Fin 10.1715))"
proof -
  from assms obtain d where "p = fireAlertData env md d"
    using emitted_payload by blast
  then show ?thesis
    by (simp add: fireAlertData_location)
qed


theorem location_fallback_per_coordinate_witness:
  "Emit AllClients ''fire-emergency''
     (fireAlertData example_env
        (JObj [(''is_emergency'', JBool True), (''gps'', JObj [(''latitude'', JNum (Fin 0))]),
               (''location'', JObj [(''longitude'', JNum (Fin 0))])])
        ''Unknown Device'')
     \<in> set (processNotification example_env (JStr ''Fire Alert'')
          (JObj [(''is_emergency'', JBool True), (''gps'', JObj [(''latitude'', JNum (Fin 0))]),
                 (''location'', JObj [(''longitude'', JNum (Fin 0))])]))
   \<and> latitude_of
        (fireAlertData example_env
           (JObj [(''is_emergency'', JBool True), (''gps'', JObj [(''latitude'', JNum (Fin 0))]),
                  (''location'', JObj [(''longitude'', JNum (Fin 0))])])
           ''Unknown Device'') = JNum (Fin 36.006397)
   \<and> longitude_of
        (fireAlertData example_env
           (JObj [(''is_emergency'', JBool True), (''gps'', JObj [(''latitude'', JNum (Fin 0))]),
                  (''location'', JObj [(''longitude'', JNum (Fin 0))])])
           ''Unknown Device'') = JNum (Fin 10.1715)"
proof -
  have h: "Emit AllClients ''fire-emergency''
     (fireAlertData example_env
        (JObj [(''is_emergency'', JBool True), (''gps'', JObj [(''latitude'', JNum (Fin 0))]),
               (''location'', JObj [(''longitude'', JNum (Fin 0))])])
        ''Unknown Device'')
     \<in> set (processNotification example_env (JStr ''Fire Alert'')
          (JObj [(''is_emergency'', JBool True), (''gps'', JObj [(''latitude'', JNum (Fin 0))]),
                 (''location'', JObj [(''longitude'', JNum (Fin 0))])]))"
    by (rule processNotification_broadcast)
       (simp_all add: fire_alert_subject isEmergency_def js_or_def example_env_def
          alert_device_def)
  show ?thesis
    using h location_fallback_per_coordinate [OF h] by (simp add: opt_prop_def nullish_def)
qed

text \<open>
  The fallback is per coordinate: a latitude of 0 is replaced while the longitude
  11.5 beside it is kept.
\<close>

lemma fallback_latitude_only:
  "latitude_of (fireAlertData env
       (JObj [(''gps'', JObj [(''latitude'', JNum (Fin 0)), (''longitude'', JNum (Fin 11.5))])]) d)
     = JNum (Fin 36.006397)
   \<and> longitude_of (fireAlertData env
       (JObj [(''gps'', JObj [(''latitude'', JNum (Fin 0)), (''longitude'', JNum (Fin 11.5))])]) d)
     = JNum (Fin 11.5)"
  by (simp add: fireAlertData_location opt_prop_def nullish_def)

section \<open>Properties of the webhook of routes/sns.js\<close>

lemma str_includes_iff: "str_includes s p \<longleftrightarrow> (\<exists>a c. s = a @ p @ c)"
proof (induction s)
  case Nil
  then show ?case by auto
next
  case (Cons x xs)
  show ?case
  proof
    assume "str_includes (x # xs) p"
    then consider "take (length p) (x # xs) = p" | "str_includes xs p"
      by auto
    then show "\<exists>a c. x # xs = a @ p @ c"
    proof cases
      case 1
      then have "x # xs = [] @ p @ drop (length p) (x # xs)"
        by (metis append_Nil append_take_drop_id)
      then show ?thesis by blast
    next
      case 2
      then obtain a c where "xs = a @ p @ c"
        using Cons.IH by auto
      then have "x # xs = (x # a) @ p @ c"
        by simp
      then show ?thesis by blast
    qed
  next
    assume "\<exists>a c. x # xs = a @ p @ c"
    then obtain a c where ac: "x # xs = a @ p @ c"
      by auto
    show "str_includes (x # xs) p"
    proof (cases a)
      case Nil
      then have "take (length p) (x # xs) = p"
        using ac by simp
      then show ?thesis by simp
    next
      case (Cons y a')
      then have "xs = a' @ p @ c"
        using ac by simp
      then have "str_includes xs p"
        using Cons.IH by blast
      then show ?thesis by simp
    qed
  qed
qed

lemma subject_matches_iff:
  "subject_matches v \<longleftrightarrow> (\<exists>s a c. v = JStr s \<and> toLowerCase s = a @ ''fire'' @ c)"
  by (cases v) (simp_all add: subject_matches_def str_includes_iff)

lemma sns_webhook_notification:
  assumes "parse_sns_body env b = Inr msg" and "\<not> nullish msg"
  shows "sns_webhook env (Some ''Notification'') b =
           (\<lparr>status = 200,
             body = JObj [(''success'', JBool True),
                          (''message'', JStr ''SNS notification processed''),
                          (''messageId'', get_prop msg ''MessageId''),
                          (''timestamp'', JStr (now_iso env))]\<rparr>,
            logger env INFO ''Received SNS notification:''
            @ logger env INFO ''SNS Notification received''
            @ processNotification env (get_prop msg ''Subject'')
                (parse_message env (get_prop msg ''Message'')))"
  using assms by (simp add: sns_webhook_def read_prop_def sns_dispatch_def Let_def)

lemma skipped_is_logged:
  assumes "\<not> subject_matches subject"
  shows "Log ERROR ''Error in processNotification:'' \<in> set (processNotification env subject md)
         \<or> (2 \<le> logger_level env \<longrightarrow>
              Log INFO ''Notification processed successfully''
                \<in> set (processNotification env subject md))"
proof (cases "ToString (coerce_str env) subject")
  case None
  then show ?thesis
    by (simp add: processNotification_def processNotification_try_def logger_def)
next
  case (Some subject_text)
  show ?thesis
  proof (cases subject)
    case (JStr s)
    then show ?thesis
      using assms
      by (simp add: processNotification_def processNotification_try_def logger_def Let_def
            subject_matches_def)
  qed (use Some in \<open>simp_all add: processNotification_def processNotification_try_def
         logger_def Let_def\<close>)
qed

lemma emits_need_fire_subject:
  "filter is_Emit (processNotification env subject md) \<noteq> [] \<Longrightarrow> subject_matches subject"
  by (simp add: processNotification_emits split: if_splits)


lemma logger_no_fetch: "filter is_Fetch (logger env l m) = []"
  by (simp add: logger_def)

lemma logger_meta_no_fetch: "logger_meta env l m meta = Inr es \<Longrightarrow> filter is_Fetch es = []"
  by (auto simp: logger_meta_def split: if_splits)

lemma logger_meta_ok: "meta \<noteq> JNull \<Longrightarrow> logger_meta env l m meta = Inr (logger env l m)"
  by (simp add: logger_meta_def logger_def)

lemma truthy_not_null: "truthy v \<Longrightarrow> v \<noteq> JNull"
  by auto

lemma confirm_subscription_run:
  assumes "truthy (subscribeUrl_of snsMessage)"
  shows "confirm_subscription env snsMessage =
           (logger env INFO ''SNS Subscription Confirmation received''
            @ logger env INFO ''Subscription URL:''
            @ [Fetch (subscribeUrl_of snsMessage)]
            @ (case fetch env (subscribeUrl_of snsMessage) of
                 Response st \<Rightarrow>
                   if ok (Response st)
                   then logger env INFO ''Auto-confirmed SNS subscription:''
                   else logger env ERROR ''Confirmation request failed:''
               | Rejected m \<Rightarrow> logger env ERROR ''Failed to auto-confirm subscription:''),
            None)"
  using assms truthy_not_null [OF assms]
  by (simp add: confirm_subscription_def Let_def subscribeUrl_of_def [symmetric] logger_meta_ok)

lemma confirm_subscription_throws:
  "snd (confirm_subscription env snsMessage) \<noteq> None
     \<longleftrightarrow> subscribeUrl_of snsMessage = JNull \<and> 2 \<le> logger_level env"
  by (simp add: confirm_subscription_def Let_def subscribeUrl_of_def [symmetric]
        logger_meta_def split: sum.splits)

lemma confirm_subscription_fetches:
  "length (filter is_Fetch (fst (confirm_subscription env snsMessage))) \<le> 1"
  by (simp add: confirm_subscription_def Let_def logger_meta_def logger_no_fetch
        split: sum.splits fetch_result.splits)

lemma fire_related_no_fetch: "filter is_Fetch (fst (fire_related env md)) = []"
  by (simp add: fire_related_def Let_def logger_no_fetch split: option.splits)

lemma processNotification_no_fetch: "filter is_Fetch (processNotification env subject md) = []"
proof -
  obtain es r where fr: "fire_related env md = (es, r)"
    by (cases "fire_related env md")
  then have es: "filter is_Fetch es = []"
    using fire_related_no_fetch [of env md] by simp
  have "filter is_Fetch (fst (processNotification_try env subject md)) = []"
    using fr es
    by (cases subject; cases r)
       (simp_all add: processNotification_try_def Let_def logger_no_fetch split: option.splits)
  then show ?thesis
    by (cases "processNotification_try env subject md")
       (auto simp: processNotification_def logger_no_fetch split: option.splits)
qed

lemma sns_dispatch_fetches:
  "length (filter is_Fetch (fst (sns_dispatch env mt snsMessage))) \<le> 1"
  using confirm_subscription_fetches [of env snsMessage]
  by (simp add: sns_dispatch_def logger_no_fetch processNotification_no_fetch)

lemma sns_dispatch_throws:
  "snd (sns_dispatch env mt snsMessage) \<noteq> None
     \<longleftrightarrow> mt = Some ''SubscriptionConfirmation'' \<and> subscribeUrl_of snsMessage = JNull
          \<and> 2 \<le> logger_level env"
  using confirm_subscription_throws [of env snsMessage]
  by (simp add: sns_dispatch_def)

lemma sns_webhook_fetches:
  "length (filter is_Fetch (snd (sns_webhook env mt b))) \<le> 1"
proof (cases "parse_sns_body env b")
  case (Inl e)
  then show ?thesis
    by (simp add: sns_webhook_def sns_failed_def logger_no_fetch)
next
  case (Inr snsMessage)
  obtain es r where d: "sns_dispatch env mt snsMessage = (es, r)"
    by (cases "sns_dispatch env mt snsMessage")
  then have "length (filter is_Fetch es) \<le> 1"
    using sns_dispatch_fetches [of env mt snsMessage] by simp
  then show ?thesis
    using Inr d
    by (cases r)
       (simp_all add: sns_webhook_def sns_failed_def read_prop_def Let_def logger_no_fetch)
qed

lemma sns_webhook_status:
  assumes "parse_sns_body env b = Inr snsMessage"
  shows "fst (sns_webhook env mt b) =
           (if nullish snsMessage
            then \<lparr>status = 500,
                  body = JObj [(''success'', JBool False),
                        (''error'', JStr ''Cannot read properties of null or undefined'')]\<rparr>
            else if mt = Some ''SubscriptionConfirmation'' \<and> subscribeUrl_of snsMessage = JNull
                    \<and> 2 \<le> logger_level env
            then \<lparr>status = 500,
                  body = JObj [(''success'', JBool False),
                        (''error'', JStr ''Cannot convert undefined or null to object'')]\<rparr>
            else \<lparr>status = 200,
                  body = JObj [(''success'', JBool True),
                               (''message'', JStr ''SNS notification processed''),
                               (''messageId'', get_prop snsMessage ''MessageId''),
                               (''timestamp'', JStr (now_iso env))]\<rparr>)"
proof -
  obtain es r where d: "sns_dispatch env mt snsMessage = (es, r)"
    by (cases "sns_dispatch env mt snsMessage")
  have r: "r \<noteq> None \<longleftrightarrow> mt = Some ''SubscriptionConfirmation''
             \<and> subscribeUrl_of snsMessage = JNull \<and> 2 \<le> logger_level env"
    using sns_dispatch_throws [of env mt snsMessage] d by simp
  have e: "r = Some e \<Longrightarrow> error_message e = ''Cannot convert undefined or null to object''" for e
    using d
    by (auto simp: sns_dispatch_def confirm_subscription_def Let_def logger_meta_def
          split: if_splits sum.splits)
  show ?thesis
  proof (cases r)
    case None
    then show ?thesis
      using assms d r by (simp add: sns_webhook_def read_prop_def Let_def sns_failed_def)
  next
    case (Some err)
    then show ?thesis
      using assms d r e [OF Some]
      by (simp add: sns_webhook_def read_prop_def Let_def sns_failed_def)
  qed
qed

section \<open>Properties of the webhook of routes/fireAlerts.js\<close>

lemma fire_alert_notification_no_fetch:
  "filter is_Fetch (fst (fire_alert_notification env message)) = []"
  by (simp add: fire_alert_notification_def JSON_parse_def Let_def logger_no_fetch
        split: option.splits sum.splits)

lemma fire_alert_confirmation_fetches:
  "length (filter is_Fetch (fst (fire_alert_confirmation env message))) \<le> 1"
  by (simp add: fire_alert_confirmation_def Let_def logger_meta_def logger_no_fetch
        split: sum.splits fetch_result.splits)

lemma fire_alert_fetches:
  "length (filter is_Fetch (snd (fire_alert env ct b))) \<le> 1"
proof (cases "fire_alert_text env ct b")
  case (Inl e)
  then show ?thesis
    by (simp add: fire_alert_def fire_alert_failed_def logger_no_fetch)
next
  case bt: (Inr body_text)
  show ?thesis
  proof (cases "JSON_parse env body_text")
    case (Inl e)
    then show ?thesis
      using bt by (simp add: fire_alert_def fire_alert_failed_def logger_no_fetch)
  next
    case msg: (Inr message)
    show ?thesis
    proof (cases "nullish message")
      case True
      then show ?thesis
        using bt msg
        by (simp add: fire_alert_def fire_alert_failed_def logger_no_fetch read_prop_def)
    next
      case False
      show ?thesis
      proof (cases "logger_meta env INFO ''SNS message received:'' (get_prop message ''Type'')")
        case (Inl e)
        then show ?thesis
          using bt msg False
          by (simp add: fire_alert_def fire_alert_failed_def logger_no_fetch read_prop_def)
      next
        case (Inr received)
        then have rec: "filter is_Fetch received = []"
          by (rule logger_meta_no_fetch)
        obtain es r where c: "fire_alert_confirmation env message = (es, r)"
          by (cases "fire_alert_confirmation env message")
        then have ces: "length (filter is_Fetch es) \<le> 1"
          using fire_alert_confirmation_fetches [of env message] by simp
        obtain es' r' where n: "fire_alert_notification env message = (es', r')"
          by (cases "fire_alert_notification env message")
        then have nes: "filter is_Fetch es' = []"
          using fire_alert_notification_no_fetch [of env message] by simp
        show ?thesis
          using bt msg False Inr rec c ces n nes
          by (cases r; cases r')
             (simp_all add: fire_alert_def fire_alert_failed_def logger_no_fetch read_prop_def)
      qed
    qed
  qed
qed

lemma fire_alert_confirmation_run:
  assumes "get_prop message ''SubscribeURL'' = url" and "truthy url"
  shows "fire_alert_confirmation env message =
           (logger env INFO ''SNS Subscription confirmation received''
            @ logger env INFO ''Confirmation URL:''
            @ [Fetch url]
            @ (case fetch env url of
                 Response st \<Rightarrow> logger env INFO ''SNS Subscription confirmed automatically''
               | Rejected m \<Rightarrow> logger env ERROR ''Failed to auto-confirm SNS subscription:''),
            None)"
  using assms truthy_not_null [OF assms(2)]
  by (simp add: fire_alert_confirmation_def Let_def logger_meta_ok)

lemma fire_alert_confirmation_response:
  assumes "fire_alert_text env ct b = Inr body_text"
    and "json_parse env body_text = Inr message"
    and "get_prop message ''Type'' = JStr ''SubscriptionConfirmation''"
    and "get_prop message ''SubscribeURL'' = url" and "truthy url"
  shows "fire_alert env ct b =
           (\<lparr>status = 200, body = JStr ''SNS Subscription processed''\<rparr>,
            logger env INFO ''SNS message received:''
            @ logger env INFO ''SNS Subscription confirmation received''
            @ logger env INFO ''Confirmation URL:''
            @ [Fetch url]
            @ (case fetch env url of
                 Response st \<Rightarrow> logger env INFO ''SNS Subscription confirmed automatically''
               | Rejected m \<Rightarrow> logger env ERROR ''Failed to auto-confirm SNS subscription:''))"
proof -
  from assms(3) have nn: "\<not> nullish message"
    by (auto simp: nullish_def)
  show ?thesis
    using assms(1-3) nn fire_alert_confirmation_run [OF assms(4,5), of env]
    by (simp add: fire_alert_def JSON_parse_def read_prop_def logger_meta_ok)
qed

lemma fire_alert_notification_throws:
  assumes "ToString (coerce_str env) (get_prop message ''Message'') = Some t"
    and "(\<exists>m. json_parse env t = Inl m)
         \<or> (\<exists>alertData. json_parse env t = Inr alertData \<and> nullish (get_prop alertData ''location''))"
  shows "snd (fire_alert_notification env message) \<noteq> None"
  using assms
  by (auto simp: fire_alert_notification_def JSON_parse_def Let_def)

lemma fire_alert_notification_fails:
  assumes "fire_alert_text env ct b = Inr body_text"
    and "json_parse env body_text = Inr message"
    and "get_prop message ''Type'' = JStr ''Notification''"
    and "snd (fire_alert_notification env message) \<noteq> None"
  shows "fst (fire_alert env ct b) =
           \<lparr>status = 500, body = JObj [(''error'', JStr ''Failed to process fire alert'')]\<rparr>"
proof -
  from assms(3) have nn: "\<not> nullish message"
    by (auto simp: nullish_def)
  obtain es e where "fire_alert_notification env message = (es, Some e)"
    using assms(4) by (cases "fire_alert_notification env message") auto
  then show ?thesis
    using assms(1-3) nn
    by (simp add: fire_alert_def JSON_parse_def read_prop_def logger_meta_ok
          fire_alert_failed_def)
qed

section \<open>Properties of the emergency broadcast\<close>

lemma emit_targets_filter: "emit_targets (filter is_Emit es) = emit_targets es"
proof (induction es)
  case Nil
  then show ?case by simp
next
  case (Cons e es)
  then show ?case
    by (cases e) (simp_all add: emit_targets_def map_filter_simps)
qed

lemma processNotification_targets:
  "emit_targets (processNotification env subject md) = []
   \<or> emit_targets (processNotification env subject md) = [AllClients]"
proof -
  have "emit_targets (processNotification env subject md)
          = emit_targets (filter is_Emit (processNotification env subject md))"
    by (simp only: emit_targets_filter)
  then show ?thesis
    by (simp add: processNotification_emits fire_related_emits emit_targets_def map_filter_simps
          split: option.splits)
qed

lemma fireEmergency_run:
  assumes "\<not> nullish alertData"
    and "ToString (coerce_str env) (get_prop alertData ''deviceId'') = Some d"
  shows "\<exists>es. fireEmergency env alertData = Inr es
          \<and> emit_targets es
              = [AllClients, AllClients]
                @ (if truthy (get_prop alertData ''deviceId'') then [Room (''device-'' @ d)] else [])
          \<and> (\<forall>h sid. sid \<in> set (connected h) \<longrightarrow>
               delivered h sid es
                 = [''fire-emergency'', ''emergency-popup'']
                   @ (if truthy (get_prop alertData ''deviceId'')
                         \<and> receives h sid (Room (''device-'' @ d))
                      then [''device-emergency''] else []))"
  using assms
  by (simp add: fireEmergency_def Let_def emit_targets_def delivered_def map_filter_simps
        logger_def)

text \<open>
  C6, as the code has it. \<open>broadcast.fireEmergency\<close> emits \<open>fire-emergency\<close> and
  \<open>emergency-popup\<close> to all clients and, when the device id is truthy,
  \<open>device-emergency\<close> to the room \<open>device-<deviceId>\<close>; nothing is addressed to the
  room \<open>fire-alerts\<close>. So a connected socket receives the two events sent to all, and
  the third exactly when it is in the device's room. The broadcast of
  \<open>processNotification\<close> is at most one event, sent to all clients.
\<close>

theorem emergency_broadcast_targets:
  assumes "\<not> nullish alertData"
    and "ToString (coerce_str env) (get_prop alertData ''deviceId'') = Some d"
    and "sid \<in> set (connected h)"
  shows "(\<exists>es. fireEmergency env alertData = Inr es
          \<and> emit_targets es
              = [AllClients, AllClients]
                @ (if truthy (get_prop alertData ''deviceId'') then [Room (''device-'' @ d)] else [])
          \<and> Room ''fire-alerts'' \<notin> set (emit_targets es)
          \<and> delivered h sid es
              = [''fire-emergency'', ''emergency-popup'']
                @ (if truthy (get_prop alertData ''deviceId'')
                      \<and> receives h sid (Room (''device-'' @ d))
                   then [''device-emergency''] else []))
       \<and> (emit_targets (processNotification env subject md) = []
           \<or> emit_targets (processNotification env subject md) = [AllClients])"
proof -
  from fireEmergency_run [OF assms(1,2)] obtain es where
    es: "fireEmergency env alertData = Inr es"
      "emit_targets es
         = [AllClients, AllClients]
           @ (if truthy (get_prop alertData ''deviceId'') then [Room (''device-'' @ d)] else [])"
      "\<forall>h sid. sid \<in> set (connected h) \<longrightarrow>
               delivered h sid es
                 = [''fire-emergency'', ''emergency-popup'']
                   @ (if truthy (get_prop alertData ''deviceId'')
                         \<and> receives h sid (Room (''device-'' @ d))
                      then [''device-emergency''] else [])"
    by blast
  have "Room ''fire-alerts'' \<notin> set (emit_targets es)"
    unfolding es(2) by simp
  with es assms(3) processNotification_targets [of env subject md] show ?thesis
    by blast
qed


theorem emergency_broadcast_targets_witness:
  "\<not> nullish (JObj [(''deviceId'', JStr ''Node 1'')])
   \<and> ToString (coerce_str example_env) (get_prop (JObj [(''deviceId'', JStr ''Node 1'')]) ''deviceId'')
       = Some ''Node 1''
   \<and> ''A'' \<in> set (connected \<lparr>connected = [''A'', ''B''], joined = [(''A'', ''device-Node 1'')]\<rparr>)
   \<and> (\<exists>es. fireEmergency example_env (JObj [(''deviceId'', JStr ''Node 1'')]) = Inr es
         \<and> emit_targets es = [AllClients, AllClients, Room ''device-Node 1'']
         \<and> delivered \<lparr>connected = [''A'', ''B''], joined = [(''A'', ''device-Node 1'')]\<rparr> ''A'' es
             = [''fire-emergency'', ''emergency-popup'', ''device-emergency''])"
proof -
  have a: "\<not> nullish (JObj [(''deviceId'', JStr ''Node 1'')])"
    by (simp add: nullish_def)
  have b: "ToString (coerce_str example_env)
             (get_prop (JObj [(''deviceId'', JStr ''Node 1'')]) ''deviceId'') = Some ''Node 1''"
    by simp
  have c: "''A'' \<in> set (connected \<lparr>connected = [''A'', ''B''],
                                   joined = [(''A'', ''device-Node 1'')]\<rparr>)"
    by simp
  have t: "truthy (get_prop (JObj [(''deviceId'', JStr ''Node 1'')]) ''deviceId'')"
    and r: "receives \<lparr>connected = [''A'', ''B''], joined = [(''A'', ''device-Node 1'')]\<rparr>
              ''A'' (Room (''device-'' @ ''Node 1''))"
    by simp_all
  from emergency_broadcast_targets [OF a b c, of JUndefined JUndefined]
  obtain es where "fireEmergency example_env (JObj [(''deviceId'', JStr ''Node 1'')]) = Inr es"
    and "emit_targets es = [AllClients, AllClients, Room ''device-Node 1'']"
    and "delivered \<lparr>connected = [''A'', ''B''], joined = [(''A'', ''device-Node 1'')]\<rparr> ''A'' es
           = [''fire-emergency'', ''emergency-popup'', ''device-emergency'']"
    unfolding if_P [OF t] if_P [OF conjI [OF t r]] by auto
  with a b c show ?thesis
    by blast
qed

text \<open>
  C6 as stated fails: after \<open>subscribe-fire-alerts\<close> socket A is in the room
  \<open>fire-alerts\<close>, yet the broadcast addresses all clients and the device's room only,
  and A receives what the socket B, which has joined no room, receives.
\<close>

theorem fire_alerts_room_not_addressed_counterexample:
  "joined (fst (subscribe_fire_alerts example_env \<lparr>connected = [''A'', ''B''], joined = []\<rparr> ''A''))
     = [(''A'', ''fire-alerts'')]
   \<and> \<not> isl (fireEmergency example_env (JObj [(''deviceId'', JStr ''Node 1'')]))
   \<and> emit_targets (projr (fireEmergency example_env (JObj [(''deviceId'', JStr ''Node 1'')])))
       = [AllClients, AllClients, Room ''device-Node 1'']
   \<and> delivered (fst (subscribe_fire_alerts example_env \<lparr>connected = [''A'', ''B''], joined = []\<rparr> ''A''))
        ''A'' (projr (fireEmergency example_env (JObj [(''deviceId'', JStr ''Node 1'')])))
       = delivered (fst (subscribe_fire_alerts example_env \<lparr>connected = [''A'', ''B''], joined = []\<rparr> ''A''))
        ''B'' (projr (fireEmergency example_env (JObj [(''deviceId'', JStr ''Node 1'')])))
   \<and> emit_targets (processNotification example_env (JStr ''Fire Alert'')
        (JObj [(''device'', JStr ''Node 1''), (''is_emergency'', JBool True)])) = [AllClients]"
  by (simp add: subscribe_fire_alerts_def fireEmergency_def nullish_def Let_def emit_targets_def
        delivered_def map_filter_simps logger_def example_env_def
        processNotification_def processNotification_try_def fire_related_def
        fire_alert_subject [unfolded subject_matches_def, simplified]
        isEmergency_def js_or_def)

section \<open>Properties of processFireAlert\<close>

lemma severity_level_tiers: "severity_level n \<in> tiers"
  by (simp add: severity_level_def tiers_def)

lemma calculateSeverity_tiers:
  assumes "calculateSeverity cn d = Inr sev"
  shows "sev \<in> tiers"
  using assms severity_level_tiers
  by (auto simp: calculateSeverity_def Let_def split: if_splits sum.splits)

lemma ToNumber_primitive:
  assumes "\<And>xs. v \<noteq> JArr xs" and "\<And>kvs. v \<noteq> JObj kvs"
  shows "ToNumber cn v \<noteq> None"
  using assms by (cases v) auto

lemma js_gt_converts: "ToNumber cn v = Some n \<Longrightarrow> js_gt cn v c = Inr (num_gt n c)"
  by (simp add: js_gt_def)

lemma js_lt_converts: "ToNumber cn v = Some n \<Longrightarrow> js_lt cn v c = Inr (num_lt n c)"
  by (simp add: js_lt_def)

lemma js_gt_throws:
  "ToNumber cn v = None \<Longrightarrow>
     js_gt cn v c = Inl (TypeError ''Cannot convert object to primitive value'')"
  by (simp add: js_gt_def)

lemma js_lt_throws:
  "ToNumber cn v = None \<Longrightarrow>
     js_lt cn v c = Inl (TypeError ''Cannot convert object to primitive value'')"
  by (simp add: js_lt_def)

lemma score_chain3_returns:
  "\<exists>n. score_chain [(Inr a, p), (Inr b, q), (Inr c, r)] s = Inr n"
  by (cases a; cases b; cases c) simp_all

lemma score_chain2_returns:
  "\<exists>n. score_chain [(Inr a, p), (Inr b, q)] s = Inr n"
  by (cases a; cases b) simp_all

lemma score_chain_throws: "score_chain ((Inl e, p) # rest) s = Inl e"
  by simp

lemma calculateSeverity_returns:
  assumes "\<not> nullish d"
    and "ToNumber cn (get_prop d ''temperature'') \<noteq> None"
    and "ToNumber cn (get_prop d ''humidity'') \<noteq> None"
    and "ToNumber cn (get_prop d ''smoke_level'') \<noteq> None"
    and "ToNumber cn (get_prop d ''air_quality'') \<noteq> None"
  shows "\<exists>sev. calculateSeverity cn d = Inr sev"
proof -
  obtain t h k a where n:
    "ToNumber cn (get_prop d ''temperature'') = Some t"
    "ToNumber cn (get_prop d ''humidity'') = Some h"
    "ToNumber cn (get_prop d ''smoke_level'') = Some k"
    "ToNumber cn (get_prop d ''air_quality'') = Some a"
    using assms(2-5) by auto
  obtain s1 where s1: "score_chain [(Inr (num_gt t 60), 3), (Inr (num_gt t 45), 2),
        (Inr (num_gt t 35), 1)] 0 = Inr s1"
    using score_chain3_returns by blast
  obtain s2 where s2: "score_chain [(Inr (num_lt h 20), 3), (Inr (num_lt h 35), 2),
        (Inr (num_lt h 50), 1)] s1 = Inr s2"
    using score_chain3_returns by blast
  obtain s3 where s3: "score_chain [(Inr (num_gt k 300), 3), (Inr (num_gt k 200), 2),
        (Inr (num_gt k 100), 1)] s2 = Inr s3"
    using score_chain3_returns by blast
  obtain s4 where s4: "score_chain [(Inr (num_gt a 250), 2), (Inr (num_gt a 150), 1)] s3 = Inr s4"
    using score_chain2_returns by blast
  show ?thesis
    unfolding calculateSeverity_def Let_def
    using assms(1)
    by (simp only: js_gt_converts [OF n(1)] js_lt_converts [OF n(2)] js_gt_converts [OF n(3)]
          js_gt_converts [OF n(4)] s1 s2 s3 s4 if_False sum.case) simp
qed

lemma calculateSeverity_throws:
  assumes "\<not> nullish d"
    and "ToNumber cn (get_prop d ''temperature'') = None
         \<or> ToNumber cn (get_prop d ''humidity'') = None
         \<or> ToNumber cn (get_prop d ''smoke_level'') = None
         \<or> ToNumber cn (get_prop d ''air_quality'') = None"
  shows "calculateSeverity cn d = Inl (TypeError ''Cannot convert object to primitive value'')"
proof (cases "ToNumber cn (get_prop d ''temperature'')")
  case None
  then show ?thesis
    using assms(1) by (simp add: calculateSeverity_def js_gt_throws)
next
  case t: (Some t)
  obtain s1 where s1: "score_chain [(Inr (num_gt t 60), 3), (Inr (num_gt t 45), 2),
        (Inr (num_gt t 35), 1)] 0 = Inr s1"
    using score_chain3_returns by blast
  show ?thesis
  proof (cases "ToNumber cn (get_prop d ''humidity'')")
    case None
    then show ?thesis
      unfolding calculateSeverity_def Let_def
      using assms(1)
      by (simp only: js_gt_converts [OF t] js_lt_throws [OF None] s1 score_chain_throws
            if_False sum.case)
  next
    case h: (Some h)
    obtain s2 where s2: "score_chain [(Inr (num_lt h 20), 3), (Inr (num_lt h 35), 2),
          (Inr (num_lt h 50), 1)] s1 = Inr s2"
      using score_chain3_returns by blast
    show ?thesis
    proof (cases "ToNumber cn (get_prop d ''smoke_level'')")
      case None
      then show ?thesis
        unfolding calculateSeverity_def Let_def
        using assms(1)
        by (simp only: js_gt_converts [OF t] js_lt_converts [OF h] js_gt_throws [OF None]
              s1 s2 score_chain_throws if_False sum.case)
    next
      case k: (Some k)
      obtain s3 where s3: "score_chain [(Inr (num_gt k 300), 3), (Inr (num_gt k 200), 2),
            (Inr (num_gt k 100), 1)] s2 = Inr s3"
        using score_chain3_returns by blast
      have a: "ToNumber cn (get_prop d ''air_quality'') = None"
        using assms(2) t h k by simp
      show ?thesis
        unfolding calculateSeverity_def Let_def
        using assms(1)
        by (simp only: js_gt_converts [OF t] js_lt_converts [OF h] js_gt_converts [OF k]
              js_gt_throws [OF a] s1 s2 s3 score_chain_throws if_False sum.case)
    qed
  qed
qed

lemma validateAlertData_iff:
  assumes "\<not> nullish d"
  shows "validateAlertData d =
           Inr (truthy (get_prop d ''deviceId'') \<and> truthy (get_prop d ''temperature'')
                \<and> truthy (get_prop d ''location'')
                \<and> truthy (get_prop (get_prop d ''location'') ''latitude'')
                \<and> truthy (get_prop (get_prop d ''location'') ''longitude''))"
  using assms by (simp add: validateAlertData_def)

text \<open>
  C2, as the code has it. On a payload that is an object \<open>processFireAlert\<close> always
  terminates, in one of three ways. When \<open>deviceId\<close>, \<open>temperature\<close>, \<open>location\<close> and
  both coordinates of \<open>location\<close> are truthy and each of the four readings converts to a
  number (a number, a string, a boolean, null and an absent reading always do; only an
  object or an array can make the conversion throw), it returns an assessment: its
  severity is the one \<open>calculateSeverity\<close> computes, one of the five tiers, and its fields
  are those of the payload, with no default in their place. When one of the five is
  falsy, it throws \<open>Error('Invalid alert data structure')\<close> and the history is unchanged.
  When the five are truthy and a reading does not convert, the TypeError of the conversion
  is thrown.
\<close>

theorem processFireAlert_guarded:
  assumes "\<not> nullish alertData"
  shows "(truthy (get_prop alertData ''deviceId'') \<and> truthy (get_prop alertData ''temperature'')
          \<and> truthy (get_prop alertData ''location'')
          \<and> truthy (get_prop (get_prop alertData ''location'') ''latitude'')
          \<and> truthy (get_prop (get_prop alertData ''location'') ''longitude'')
          \<and> ToNumber cn (get_prop alertData ''temperature'') \<noteq> None
          \<and> ToNumber cn (get_prop alertData ''humidity'') \<noteq> None
          \<and> ToNumber cn (get_prop alertData ''smoke_level'') \<noteq> None
          \<and> ToNumber cn (get_prop alertData ''air_quality'') \<noteq> None \<longrightarrow>
          (\<exists>a. fst (processFireAlert cn new_id now s alertData) = Inr a
                \<and> severity a \<in> tiers
                \<and> calculateSeverity cn alertData = Inr (severity a)
                \<and> deviceId a = get_prop alertData ''deviceId''
                \<and> temperature (readings a) = get_prop alertData ''temperature''
                \<and> humidity (readings a) = get_prop alertData ''humidity''
                \<and> smoke_level (readings a) = get_prop alertData ''smoke_level''
                \<and> air_quality (readings a) = get_prop alertData ''air_quality''
                \<and> location (readings a) = get_prop alertData ''location''))
       \<and> (\<not> (truthy (get_prop alertData ''deviceId'')
                \<and> truthy (get_prop alertData ''temperature'')
                \<and> truthy (get_prop alertData ''location'')
                \<and> truthy (get_prop (get_prop alertData ''location'') ''latitude'')
                \<and> truthy (get_prop (get_prop alertData ''location'') ''longitude'')) \<longrightarrow>
           processFireAlert cn new_id now s alertData
             = (Inl (Error ''Invalid alert data structure''), s))
       \<and> (truthy (get_prop alertData ''deviceId'') \<and> truthy (get_prop alertData ''temperature'')
           \<and> truthy (get_prop alertData ''location'')
           \<and> truthy (get_prop (get_prop alertData ''location'') ''latitude'')
           \<and> truthy (get_prop (get_prop alertData ''location'') ''longitude'')
           \<and> (ToNumber cn (get_prop alertData ''temperature'') = None
                \<or> ToNumber cn (get_prop alertData ''humidity'') = None
                \<or> ToNumber cn (get_prop alertData ''smoke_level'') = None
                \<or> ToNumber cn (get_prop alertData ''air_quality'') = None) \<longrightarrow>
           processFireAlert cn new_id now s alertData
             = (Inl (TypeError ''Cannot convert object to primitive value''), s))"
proof -
  have ok: "\<exists>a. fst (processFireAlert cn new_id now s alertData) = Inr a
                \<and> severity a \<in> tiers
                \<and> calculateSeverity cn alertData = Inr (severity a)
                \<and> deviceId a = get_prop alertData ''deviceId''
                \<and> temperature (readings a) = get_prop alertData ''temperature''
                \<and> humidity (readings a) = get_prop alertData ''humidity''
                \<and> smoke_level (readings a) = get_prop alertData ''smoke_level''
                \<and> air_quality (readings a) = get_prop alertData ''air_quality''
                \<and> location (readings a) = get_prop alertData ''location''"
    if v: "validateAlertData alertData = Inr True"
      and p: "ToNumber cn (get_prop alertData ''temperature'') \<noteq> None"
        "ToNumber cn (get_prop alertData ''humidity'') \<noteq> None"
        "ToNumber cn (get_prop alertData ''smoke_level'') \<noteq> None"
        "ToNumber cn (get_prop alertData ''air_quality'') \<noteq> None"
  proof -
    obtain sev where sev: "calculateSeverity cn alertData = Inr sev"
      using calculateSeverity_returns [OF assms p] by blast
    then have "sev \<in> tiers"
      by (rule calculateSeverity_tiers)
    then show ?thesis
      using v sev by (simp add: processFireAlert_def Let_def)
  qed
  have rejected: "processFireAlert cn new_id now s alertData
             = (Inl (Error ''Invalid alert data structure''), s)"
    if "validateAlertData alertData = Inr False"
    using that by (simp add: processFireAlert_def)
  have thrown: "processFireAlert cn new_id now s alertData
             = (Inl (TypeError ''Cannot convert object to primitive value''), s)"
    if "validateAlertData alertData = Inr True"
      and "ToNumber cn (get_prop alertData ''temperature'') = None
           \<or> ToNumber cn (get_prop alertData ''humidity'') = None
           \<or> ToNumber cn (get_prop alertData ''smoke_level'') = None
           \<or> ToNumber cn (get_prop alertData ''air_quality'') = None"
    using that(1) calculateSeverity_throws [OF assms that(2)]
    by (simp add: processFireAlert_def)
  have v: "validateAlertData alertData = Inr True"
    if "truthy (get_prop alertData ''deviceId'')" "truthy (get_prop alertData ''temperature'')"
      "truthy (get_prop alertData ''location'')"
      "truthy (get_prop (get_prop alertData ''location'') ''latitude'')"
      "truthy (get_prop (get_prop alertData ''location'') ''longitude'')"
    using that validateAlertData_iff [OF assms] by simp
  have nv: "validateAlertData alertData = Inr False"
    if "\<not> (truthy (get_prop alertData ''deviceId'')
                \<and> truthy (get_prop alertData ''temperature'')
                \<and> truthy (get_prop alertData ''location'')
                \<and> truthy (get_prop (get_prop alertData ''location'') ''latitude'')
                \<and> truthy (get_prop (get_prop alertData ''location'') ''longitude''))"
    using that validateAlertData_iff [OF assms] by simp
  show ?thesis
    using ok [OF v] rejected [OF nv] thrown [OF v] by blast
qed

theorem processFireAlert_guarded_witness:
  "\<not> nullish (JObj [(''deviceId'', JStr ''Node 1''), (''temperature'', JStr ''70''),
                   (''location'', JObj [(''latitude'', JNum (Fin 36.006397)),
                                        (''longitude'', JNum (Fin 10.1715))])])
   \<and> ToNumber coercion_throws (JStr ''70'') = Some (Fin 70)
   \<and> (\<exists>a. fst (processFireAlert coercion_throws ''FIRE_1'' ''2025-01-01T00:00:00.000Z''
                 (new_FireAlertService ())
                 (JObj [(''deviceId'', JStr ''Node 1''), (''temperature'', JStr ''70''),
                   (''location'', JObj [(''latitude'', JNum (Fin 36.006397)),
                                        (''longitude'', JNum (Fin 10.1715))])])) = Inr a
          \<and> severity a = ''MODERATE'' \<and> severity a \<in> tiers
          \<and> deviceId a = JStr ''Node 1'' \<and> temperature (readings a) = JStr ''70''
          \<and> humidity (readings a) = JUndefined)
   \<and> \<not> nullish (JObj [(''temperature'', JNum (Fin 65.8))])
   \<and> \<not> truthy (get_prop (JObj [(''temperature'', JNum (Fin 65.8))]) ''deviceId'')
   \<and> processFireAlert coercion_throws ''FIRE_1'' ''2025-01-01T00:00:00.000Z''
        (new_FireAlertService ()) (JObj [(''temperature'', JNum (Fin 65.8))])
       = (Inl (Error ''Invalid alert data structure''), new_FireAlertService ())
   \<and> ToNumber coercion_throws (JObj [(''toString'', JNum (Fin 1))]) = None
   \<and> processFireAlert coercion_throws ''FIRE_1'' ''2025-01-01T00:00:00.000Z''
        (new_FireAlertService ())
        (JObj [(''deviceId'', JStr ''Node 1''),
               (''temperature'', JObj [(''toString'', JNum (Fin 1))]),
               (''location'', JObj [(''latitude'', JNum (Fin 36.006397)),
                                    (''longitude'', JNum (Fin 10.1715))])])
       = (Inl (TypeError ''Cannot convert object to primitive value''), new_FireAlertService ())"
proof -
  have a: "\<not> nullish (JObj [(''deviceId'', JStr ''Node 1''), (''temperature'', JStr ''70''),
                   (''location'', JObj [(''latitude'', JNum (Fin 36.006397)),
                                        (''longitude'', JNum (Fin 10.1715))])])"
    and b: "\<not> nullish (JObj [(''temperature'', JNum (Fin 65.8))])"
    and d: "\<not> nullish (JObj [(''deviceId'', JStr ''Node 1''),
               (''temperature'', JObj [(''toString'', JNum (Fin 1))]),
               (''location'', JObj [(''latitude'', JNum (Fin 36.006397)),
                                    (''longitude'', JNum (Fin 10.1715))])])"
    by (simp_all add: nullish_def)
  have c: "calculateSeverity coercion_throws
             (JObj [(''deviceId'', JStr ''Node 1''), (''temperature'', JStr ''70''),
                   (''location'', JObj [(''latitude'', JNum (Fin 36.006397)),
                                        (''longitude'', JNum (Fin 10.1715))])])
           = Inr ''MODERATE''"
    by (simp add: calculateSeverity_def nullish_def js_gt_def js_lt_def severity_level_def
          coercion_throws_def)
  show ?thesis
    using processFireAlert_guarded [OF a, of coercion_throws "''FIRE_1''"
        "''2025-01-01T00:00:00.000Z''" "new_FireAlertService ()"]
      processFireAlert_guarded [OF b, of coercion_throws "''FIRE_1''"
        "''2025-01-01T00:00:00.000Z''" "new_FireAlertService ()"]
      processFireAlert_guarded [OF d, of coercion_throws "''FIRE_1''"
        "''2025-01-01T00:00:00.000Z''" "new_FireAlertService ()"]
      a b c
    by (auto simp: coercion_throws_def)
qed

text \<open>
  C2 as stated fails: the payload with no field at all is rejected, so the branch that
  rejects the input is reached and nothing is put in place of the missing fields.
\<close>

theorem processFireAlert_rejects_counterexample:
  "fst (processFireAlert coercion_throws ''FIRE_1'' ''2025-01-01T00:00:00.000Z''
         (new_FireAlertService ()) (JObj []))
     = Inl (Error ''Invalid alert data structure'')"
  by (simp add: processFireAlert_def validateAlertData_def nullish_def)

section \<open>Properties of the subscription confirmation\<close>

lemma sns_confirmation_response:
  assumes "parse_sns_body env b = Inr snsMessage"
    and "subscribeUrl_of snsMessage = url" and "truthy url"
  shows "status (fst (sns_webhook env (Some ''SubscriptionConfirmation'') b)) = 200
       \<and> filter is_Fetch (snd (sns_webhook env (Some ''SubscriptionConfirmation'') b)) = [Fetch url]
       \<and> (\<not> ok (fetch env url) \<longrightarrow>
            (\<exists>m. Log ERROR m \<in> set (snd (sns_webhook env (Some ''SubscriptionConfirmation'') b))))"
proof -
  have nn: "\<not> nullish snsMessage"
    using assms(2,3) by (auto simp: nullish_def subscribeUrl_of_def js_or_def)
  have t: "truthy (subscribeUrl_of snsMessage)"
    using assms(2,3) by simp
  have run: "sns_webhook env (Some ''SubscriptionConfirmation'') b =
          (\<lparr>status = 200,
            body = JObj [(''success'', JBool True),
                         (''message'', JStr ''SNS notification processed''),
                         (''messageId'', get_prop snsMessage ''MessageId''),
                         (''timestamp'', JStr (now_iso env))]\<rparr>,
           logger env INFO ''Received SNS notification:''
           @ fst (confirm_subscription env snsMessage))"
    using assms(1) nn confirm_subscription_run [OF t, of env]
    by (simp add: sns_webhook_def read_prop_def sns_dispatch_def Let_def)
  have es: "fst (confirm_subscription env snsMessage) =
            logger env INFO ''SNS Subscription Confirmation received''
            @ logger env INFO ''Subscription URL:''
            @ [Fetch url]
            @ (case fetch env url of
                 Response st \<Rightarrow>
                   if ok (Response st)
                   then logger env INFO ''Auto-confirmed SNS subscription:''
                   else logger env ERROR ''Confirmation request failed:''
               | Rejected m \<Rightarrow> logger env ERROR ''Failed to auto-confirm subscription:'')"
    using confirm_subscription_run [OF t, of env] assms(2) by simp
  have a: "status (fst (sns_webhook env (Some ''SubscriptionConfirmation'') b)) = 200"
    by (simp add: run)
  have b: "filter is_Fetch (snd (sns_webhook env (Some ''SubscriptionConfirmation'') b)) = [Fetch url]"
    by (cases "fetch env url") (simp_all add: run es logger_no_fetch)
  have c: "\<not> ok (fetch env url) \<longrightarrow>
            (\<exists>m. Log ERROR m \<in> set (snd (sns_webhook env (Some ''SubscriptionConfirmation'') b)))"
    by (cases "fetch env url") (auto simp: run es logger_def)
  from a b c show ?thesis
    by blast
qed

lemma fire_alert_confirmation_outcome:
  assumes "fire_alert_text env ct b = Inr body_text"
    and "json_parse env body_text = Inr message"
    and "get_prop message ''Type'' = JStr ''SubscriptionConfirmation''"
    and "get_prop message ''SubscribeURL'' = url" and "truthy url"
  shows "status (fst (fire_alert env ct b)) = 200
       \<and> filter is_Fetch (snd (fire_alert env ct b)) = [Fetch url]
       \<and> ((\<exists>m. fetch env url = Rejected m) \<longrightarrow>
            (\<exists>m. Log ERROR m \<in> set (snd (fire_alert env ct b))))
       \<and> ((\<exists>st. fetch env url = Response st) \<longrightarrow>
            (\<forall>m. Log ERROR m \<notin> set (snd (fire_alert env ct b)))
            \<and> (2 \<le> logger_level env \<longrightarrow>
                 Log INFO ''SNS Subscription confirmed automatically''
                   \<in> set (snd (fire_alert env ct b))))"
proof -
  note run = fire_alert_confirmation_response [OF assms]
  have a: "status (fst (fire_alert env ct b)) = 200"
    by (simp add: run)
  have b: "filter is_Fetch (snd (fire_alert env ct b)) = [Fetch url]"
    by (cases "fetch env url") (simp_all add: run logger_no_fetch)
  have c: "(\<exists>m. fetch env url = Rejected m) \<longrightarrow>
            (\<exists>m. Log ERROR m \<in> set (snd (fire_alert env ct b)))"
    by (cases "fetch env url") (auto simp: run logger_def)
  have d: "(\<exists>st. fetch env url = Response st) \<longrightarrow>
            (\<forall>m. Log ERROR m \<notin> set (snd (fire_alert env ct b)))
            \<and> (2 \<le> logger_level env \<longrightarrow>
                 Log INFO ''SNS Subscription confirmed automatically''
                   \<in> set (snd (fire_alert env ct b)))"
    by (cases "fetch env url") (auto simp: run logger_def)
  from a b c d show ?thesis
    by blast
qed

text \<open>
  A confirmation with a truthy URL never fails the delivery, on either webhook: the
  response is 200 whatever the fetch does, exactly one fetch goes out, to the given URL,
  and a rejected fetch is logged at ERROR level. \<open>/sns/webhook\<close> also logs a response
  outside 2xx at ERROR level; \<open>/webhook/fire-alert\<close> logs every response as a
  confirmation. The runtime is arbitrary, so this holds for each of two deliveries with
  the same URL. For every request at all, each webhook makes at most one fetch.
\<close>

lemma confirmation_outcomes:
  "(parse_sns_body env b = Inr snsMessage \<and> subscribeUrl_of snsMessage = url \<and> truthy url \<longrightarrow>
      status (fst (sns_webhook env (Some ''SubscriptionConfirmation'') b)) = 200
      \<and> filter is_Fetch (snd (sns_webhook env (Some ''SubscriptionConfirmation'') b)) = [Fetch url]
      \<and> (\<not> ok (fetch env url) \<longrightarrow>
           (\<exists>m. Log ERROR m \<in> set (snd (sns_webhook env (Some ''SubscriptionConfirmation'') b)))))
   \<and> (fire_alert_text env ct b' = Inr body_text \<and> json_parse env body_text = Inr message
       \<and> get_prop message ''Type'' = JStr ''SubscriptionConfirmation''
       \<and> get_prop message ''SubscribeURL'' = url' \<and> truthy url' \<longrightarrow>
      status (fst (fire_alert env ct b')) = 200
      \<and> filter is_Fetch (snd (fire_alert env ct b')) = [Fetch url']
      \<and> ((\<exists>m. fetch env url' = Rejected m) \<longrightarrow>
           (\<exists>m. Log ERROR m \<in> set (snd (fire_alert env ct b'))))
      \<and> ((\<exists>st. fetch env url' = Response st) \<longrightarrow>
           (\<forall>m. Log ERROR m \<notin> set (snd (fire_alert env ct b')))
           \<and> (2 \<le> logger_level env \<longrightarrow>
                Log INFO ''SNS Subscription confirmed automatically''
                  \<in> set (snd (fire_alert env ct b')))))
   \<and> length (filter is_Fetch (snd (sns_webhook env mt b))) \<le> 1
   \<and> length (filter is_Fetch (snd (fire_alert env ct b'))) \<le> 1"
  using sns_confirmation_response [of env b snsMessage url]
    fire_alert_confirmation_outcome [of env ct b' body_text message url']
    sns_webhook_fetches [of env mt b] fire_alert_fetches [of env ct b']
  by blast

section \<open>The example runtimes\<close>

lemma example_parses:
  "json_parse example_env ''{}'' = Inr (JObj [])"
  "json_parse example_env '' '' = Inl ''Unexpected end of JSON input''"
  "json_parse example_env notification_text
     = Inr (JObj [(''Type'', JStr ''Notification''), (''Message'', JStr ''{}'')])"
  "json_parse example_env blank_notification_text
     = Inr (JObj [(''Type'', JStr ''Notification''), (''Message'', JStr '' '')])"
  "json_parse example_env confirmation_text
     = Inr (JObj [(''Type'', JStr ''SubscriptionConfirmation''),
                  (''SubscribeURL'', JStr ''https://sns.example/confirm'')])"
  "json_parse example_env alert_text
     = Inr (JObj [(''deviceId'', JStr ''Node 1''), (''location'', JObj [])])"
  "json_parse example_env routine_check_text
     = Inr (JObj [(''Type'', JStr ''Notification''), (''Subject'', JStr ''Routine Check''),
                  (''Message'', JStr alert_text)])"
  by (simp_all add: example_env_def example_parse_def confirmation_text_def
        notification_text_def blank_notification_text_def alert_text_def
        routine_check_text_def json_string_def)

lemma example_envs:
  "json_parse offline_env = json_parse example_env"
  "json_parse refused_env = json_parse example_env"
  "coerce_str offline_env = coerce_str example_env"
  "coerce_str refused_env = coerce_str example_env"
  "logger_level example_env = 2" "logger_level offline_env = 2" "logger_level refused_env = 2"
  "io_present example_env" "io_present offline_env" "io_present refused_env"
  "fetch example_env url = Response 200"
  "fetch offline_env url = Rejected ''request failed''"
  "fetch refused_env url = Response 500"
  by (simp_all add: offline_env_def refused_env_def example_env_def)

section \<open>A confirmation that is refused\<close>

text \<open>
  C9 at a confirmation whose URL answers with status 500. \<open>/webhook/fire-alert\<close>
  answers 200 and makes its one fetch, but it never looks at the response: it logs
  \<open>SNS Subscription confirmed automatically\<close> and writes no ERROR line, so the response
  outside 2xx is not logged as a failure. On the same delivery \<open>/sns/webhook\<close>, which
  tests \<open>response.ok\<close>, logs \<open>Confirmation request failed:\<close> at ERROR level.
\<close>

theorem unchecked_confirmation_response:
  "fetch refused_env (JStr ''https://sns.example/confirm'') = Response 500
   \<and> \<not> ok (fetch refused_env (JStr ''https://sns.example/confirm''))
   \<and> fire_alert refused_env (Some ''text/plain'') (BufferBody confirmation_text)
       = (\<lparr>status = 200, body = JStr ''SNS Subscription processed''\<rparr>,
          [Log INFO ''SNS message received:'',
           Log INFO ''SNS Subscription confirmation received'',
           Log INFO ''Confirmation URL:'',
           Fetch (JStr ''https://sns.example/confirm''),
           Log INFO ''SNS Subscription confirmed automatically''])
   \<and> snd (sns_webhook refused_env (Some ''SubscriptionConfirmation'')
             (BufferBody confirmation_text))
       = [Log INFO ''Received SNS notification:'',
          Log INFO ''SNS Subscription Confirmation received'',
          Log INFO ''Subscription URL:'',
          Fetch (JStr ''https://sns.example/confirm''),
          Log ERROR ''Confirmation request failed:'']"
  by (simp add: example_envs example_parses fire_alert_def fire_alert_text_def JSON_parse_def
        read_prop_def nullish_def logger_meta_def fire_alert_confirmation_def Let_def logger_def
        sns_webhook_def parse_sns_body_def sns_dispatch_def confirm_subscription_def js_or_def)

section \<open>Properties of the subject test\<close>

lemma sns_notification_outcome:
  assumes "parse_sns_body env b = Inr snsMessage" and "\<not> nullish snsMessage"
  shows "status (fst (sns_webhook env (Some ''Notification'') b)) = 200
       \<and> (filter is_Emit (snd (sns_webhook env (Some ''Notification'') b)) \<noteq> [] \<longrightarrow>
            (\<exists>s a c. get_prop snsMessage ''Subject'' = JStr s \<and> toLowerCase s = a @ ''fire'' @ c))
       \<and> (\<not> (\<exists>s a c. get_prop snsMessage ''Subject'' = JStr s \<and> toLowerCase s = a @ ''fire'' @ c) \<longrightarrow>
            filter is_Emit (snd (sns_webhook env (Some ''Notification'') b)) = []
            \<and> (Log ERROR ''Error in processNotification:''
                  \<in> set (snd (sns_webhook env (Some ''Notification'') b))
                \<or> (2 \<le> logger_level env \<longrightarrow>
                     Log INFO ''Notification processed successfully''
                       \<in> set (snd (sns_webhook env (Some ''Notification'') b)))))"
proof -
  let ?subject = "get_prop snsMessage ''Subject''"
  let ?md = "parse_message env (get_prop snsMessage ''Message'')"
  have run: "snd (sns_webhook env (Some ''Notification'') b)
               = logger env INFO ''Received SNS notification:''
                 @ logger env INFO ''SNS Notification received''
                 @ processNotification env ?subject ?md"
    and st: "status (fst (sns_webhook env (Some ''Notification'') b)) = 200"
    using sns_webhook_notification [OF assms] by simp_all
  have emits: "filter is_Emit (snd (sns_webhook env (Some ''Notification'') b))
                 = filter is_Emit (processNotification env ?subject ?md)"
    by (simp add: run logger_no_emit)
  have a: "filter is_Emit (snd (sns_webhook env (Some ''Notification'') b)) \<noteq> [] \<longrightarrow>
             (\<exists>s a c. ?subject = JStr s \<and> toLowerCase s = a @ ''fire'' @ c)"
    unfolding emits using emits_need_fire_subject subject_matches_iff by blast
  have c: "\<not> (\<exists>s a c. ?subject = JStr s \<and> toLowerCase s = a @ ''fire'' @ c) \<longrightarrow>
            Log ERROR ''Error in processNotification:''
              \<in> set (snd (sns_webhook env (Some ''Notification'') b))
            \<or> (2 \<le> logger_level env \<longrightarrow>
                 Log INFO ''Notification processed successfully''
                   \<in> set (snd (sns_webhook env (Some ''Notification'') b)))"
  proof
    assume "\<not> (\<exists>s a c. ?subject = JStr s \<and> toLowerCase s = a @ ''fire'' @ c)"
    then have "\<not> subject_matches ?subject"
      by (simp only: subject_matches_iff not_False_eq_True)
    from skipped_is_logged [OF this, of env ?md] show
      "Log ERROR ''Error in processNotification:''
              \<in> set (snd (sns_webhook env (Some ''Notification'') b))
            \<or> (2 \<le> logger_level env \<longrightarrow>
                 Log INFO ''Notification processed successfully''
                   \<in> set (snd (sns_webhook env (Some ''Notification'') b)))"
      unfolding run by auto
  qed
  from st a c show ?thesis
    by blast
qed

lemma fire_alert_notification_run:
  assumes "ToString (coerce_str env) (get_prop message ''Message'') = Some t"
    and "json_parse env t = Inr alertData"
    and "\<not> nullish alertData" and "\<not> nullish (get_prop alertData ''location'')"
    and "ToString (coerce_str env) (get_prop alertData ''temperature'') \<noteq> None"
    and "ToString (coerce_str env) (get_prop alertData ''humidity'') \<noteq> None"
    and "ToString (coerce_str env) (get_prop (get_prop alertData ''location'') ''latitude'') \<noteq> None"
    and "ToString (coerce_str env) (get_prop (get_prop alertData ''location'') ''longitude'') \<noteq> None"
    and "ToString (coerce_str env) (get_prop alertData ''deviceId'') = Some d"
  shows "fire_alert_notification env message =
           (logger env WARN ''FIRE EMERGENCY ALERT RECEIVED FROM AWS LAMBDA''
            @ (if io_present env
               then [Emit AllClients ''fire-emergency'' (emergencyBroadcast env alertData d),
                     Emit (Room (''device-'' @ d)) ''device-emergency''
                       (emergencyBroadcast env alertData d),
                     Emit AllClients ''emergency-popup'' (emergencyBroadcast env alertData d)]
                    @ logger env INFO ''FIRE EMERGENCY broadcasted to connected clients''
               else logger env ERROR
                      ''WebSocket not available! Cannot broadcast emergency alert!'')
            @ logger env ERROR ''FIRE EMERGENCY PROCESSED:'',
            None)"
  using assms by (simp add: fire_alert_notification_def JSON_parse_def Let_def)

lemma fire_alert_notification_response:
  assumes "fire_alert_text env ct b = Inr body_text"
    and "json_parse env body_text = Inr message"
    and "get_prop message ''Type'' = JStr ''Notification''"
    and "fire_alert_notification env message = (es, None)"
  shows "fire_alert env ct b =
           (\<lparr>status = 200, body = JStr ''OK''\<rparr>, logger env INFO ''SNS message received:'' @ es)"
proof -
  from assms(3) have nn: "\<not> nullish message"
    by (auto simp: nullish_def)
  show ?thesis
    using assms nn
    by (simp add: fire_alert_def JSON_parse_def read_prop_def logger_meta_ok)
qed

lemma fire_alert_broadcast:
  assumes "fire_alert_text env ct b = Inr body_text"
    and "json_parse env body_text = Inr message"
    and "get_prop message ''Type'' = JStr ''Notification''"
    and "ToString (coerce_str env) (get_prop message ''Message'') = Some t"
    and "json_parse env t = Inr alertData"
    and "\<not> nullish alertData" and "\<not> nullish (get_prop alertData ''location'')"
    and "ToString (coerce_str env) (get_prop alertData ''temperature'') \<noteq> None"
    and "ToString (coerce_str env) (get_prop alertData ''humidity'') \<noteq> None"
    and "ToString (coerce_str env) (get_prop (get_prop alertData ''location'') ''latitude'') \<noteq> None"
    and "ToString (coerce_str env) (get_prop (get_prop alertData ''location'') ''longitude'') \<noteq> None"
    and "ToString (coerce_str env) (get_prop alertData ''deviceId'') = Some d"
  shows "status (fst (fire_alert env ct b)) = 200
       \<and> emit_targets (snd (fire_alert env ct b))
           = (if io_present env then [AllClients, Room (''device-'' @ d), AllClients] else [])"
proof -
  note n = fire_alert_notification_run [OF assms(4-12)]
  note r = fire_alert_notification_response [OF assms(1-3) n]
  show ?thesis
    unfolding r
    by (simp add: emit_targets_def List.map_filter_def logger_def)
qed

text \<open>
  C8, as the code has it. On \<open>/sns/webhook\<close> a notification whose envelope is neither
  null nor undefined is answered 200; an event is emitted only when \<open>Subject\<close> is a
  string whose lower-cased text contains \<open>fire\<close>; for every other subject, an absent one
  too, nothing is emitted and the notification is logged: either
  \<open>Notification processed successfully\<close>, when the logger prints INFO, or the error of
  \<open>processNotification\<close>. \<open>/webhook/fire-alert\<close> never reads \<open>Subject\<close>: every
  notification it can process (its \<open>Message\<close> is the JSON text of an alert with a
  \<open>location\<close>, whose logged fields can be rendered) is answered 200 and broadcast, as
  \<open>fire-emergency\<close> to all clients, \<open>device-emergency\<close> to the room of the device and
  \<open>emergency-popup\<close> to all clients, whatever the subject.
\<close>

theorem broadcast_only_for_fire_subject:
  "(parse_sns_body env b = Inr snsMessage \<and> \<not> nullish snsMessage \<longrightarrow>
      status (fst (sns_webhook env (Some ''Notification'') b)) = 200
      \<and> (filter is_Emit (snd (sns_webhook env (Some ''Notification'') b)) \<noteq> [] \<longrightarrow>
           (\<exists>s a c. get_prop snsMessage ''Subject'' = JStr s \<and> toLowerCase s = a @ ''fire'' @ c))
      \<and> (\<not> (\<exists>s a c. get_prop snsMessage ''Subject'' = JStr s \<and> toLowerCase s = a @ ''fire'' @ c) \<longrightarrow>
           filter is_Emit (snd (sns_webhook env (Some ''Notification'') b)) = []
           \<and> (Log ERROR ''Error in processNotification:''
                 \<in> set (snd (sns_webhook env (Some ''Notification'') b))
               \<or> (2 \<le> logger_level env \<longrightarrow>
                    Log INFO ''Notification processed successfully''
                      \<in> set (snd (sns_webhook env (Some ''Notification'') b))))))
   \<and> (fire_alert_text env ct b' = Inr body_text \<and> json_parse env body_text = Inr message
       \<and> get_prop message ''Type'' = JStr ''Notification''
       \<and> ToString (coerce_str env) (get_prop message ''Message'') = Some t
       \<and> json_parse env t = Inr alertData
       \<and> \<not> nullish alertData \<and> \<not> nullish (get_prop alertData ''location'')
       \<and> ToString (coerce_str env) (get_prop alertData ''temperature'') \<noteq> None
       \<and> ToString (coerce_str env) (get_prop alertData ''humidity'') \<noteq> None
       \<and> ToString (coerce_str env) (get_prop (get_prop alertData ''location'') ''latitude'') \<noteq> None
       \<and> ToString (coerce_str env) (get_prop (get_prop alertData ''location'') ''longitude'') \<noteq> None
       \<and> ToString (coerce_str env) (get_prop alertData ''deviceId'') = Some d \<longrightarrow>
      status (fst (fire_alert env ct b')) = 200
      \<and> emit_targets (snd (fire_alert env ct b'))
          = (if io_present env then [AllClients, Room (''device-'' @ d), AllClients] else []))"
  using sns_notification_outcome [of env b snsMessage]
    fire_alert_broadcast [of env ct b' body_text message t alertData d]
  by blast

lemma routine_check_subject:
  "\<not> (\<exists>s a c. JStr ''Routine Check'' = JStr s \<and> toLowerCase s = a @ ''fire'' @ c)"
proof -
  have "\<not> str_includes (toLowerCase ''Routine Check'') ''fire''"
    by code_simp
  then have "\<not> subject_matches (JStr ''Routine Check'')"
    by (simp add: subject_matches_def)
  then show ?thesis
    by (simp only: subject_matches_iff not_False_eq_True)
qed

lemma routine_check_broadcast:
  "fire_alert example_env (Some ''text/plain'') (BufferBody routine_check_text)
     = (\<lparr>status = 200, body = JStr ''OK''\<rparr>,
        [Log INFO ''SNS message received:'',
         Log WARN ''FIRE EMERGENCY ALERT RECEIVED FROM AWS LAMBDA'',
         Emit AllClients ''fire-emergency''
           (emergencyBroadcast example_env
              (JObj [(''deviceId'', JStr ''Node 1''), (''location'', JObj [])]) ''Node 1''),
         Emit (Room ''device-Node 1'') ''device-emergency''
           (emergencyBroadcast example_env
              (JObj [(''deviceId'', JStr ''Node 1''), (''location'', JObj [])]) ''Node 1''),
         Emit AllClients ''emergency-popup''
           (emergencyBroadcast example_env
              (JObj [(''deviceId'', JStr ''Node 1''), (''location'', JObj [])]) ''Node 1''),
         Log INFO ''FIRE EMERGENCY broadcasted to connected clients'',
         Log ERROR ''FIRE EMERGENCY PROCESSED:''])"
  by (simp add: example_envs example_parses fire_alert_def fire_alert_text_def JSON_parse_def
        read_prop_def nullish_def logger_meta_def fire_alert_notification_def Let_def logger_def)

theorem broadcast_only_for_fire_subject_witness:
  "parse_sns_body example_env
      (ParsedBody (JObj [(''Subject'', JStr ''Routine Check''), (''Message'', JStr ''{}'')]))
     = Inr (JObj [(''Subject'', JStr ''Routine Check''), (''Message'', JStr ''{}'')])
   \<and> \<not> nullish (JObj [(''Subject'', JStr ''Routine Check''), (''Message'', JStr ''{}'')])
   \<and> 2 \<le> logger_level example_env
   \<and> status (fst (sns_webhook example_env (Some ''Notification'')
        (ParsedBody (JObj [(''Subject'', JStr ''Routine Check''), (''Message'', JStr ''{}'')])))) = 200
   \<and> filter is_Emit (snd (sns_webhook example_env (Some ''Notification'')
        (ParsedBody (JObj [(''Subject'', JStr ''Routine Check''), (''Message'', JStr ''{}'')])))) = []
   \<and> (Log ERROR ''Error in processNotification:''
         \<in> set (snd (sns_webhook example_env (Some ''Notification'')
              (ParsedBody (JObj [(''Subject'', JStr ''Routine Check''), (''Message'', JStr ''{}'')]))))
       \<or> Log INFO ''Notification processed successfully''
         \<in> set (snd (sns_webhook example_env (Some ''Notification'')
              (ParsedBody (JObj [(''Subject'', JStr ''Routine Check''), (''Message'', JStr ''{}'')])))))
   \<and> fire_alert_text example_env (Some ''text/plain'') (BufferBody routine_check_text)
       = Inr routine_check_text
   \<and> json_parse example_env routine_check_text
       = Inr (JObj [(''Type'', JStr ''Notification''), (''Subject'', JStr ''Routine Check''),
                    (''Message'', JStr alert_text)])
   \<and> json_parse example_env alert_text
       = Inr (JObj [(''deviceId'', JStr ''Node 1''), (''location'', JObj [])])
   \<and> io_present example_env
   \<and> status (fst (fire_alert example_env (Some ''text/plain'') (BufferBody routine_check_text))) = 200
   \<and> emit_targets (snd (fire_alert example_env (Some ''text/plain'')
        (BufferBody routine_check_text)))
       = [AllClients, Room ''device-Node 1'', AllClients]"
  using broadcast_only_for_fire_subject
    [of example_env
        "ParsedBody (JObj [(''Subject'', JStr ''Routine Check''), (''Message'', JStr ''{}'')])"
        "JObj [(''Subject'', JStr ''Routine Check''), (''Message'', JStr ''{}'')]"
        "Some ''text/plain''" "BufferBody routine_check_text" routine_check_text
        "JObj [(''Type'', JStr ''Notification''), (''Subject'', JStr ''Routine Check''),
               (''Message'', JStr alert_text)]"
        alert_text "JObj [(''deviceId'', JStr ''Node 1''), (''location'', JObj [])]" "''Node 1''"]
    routine_check_subject
  by (simp add: example_envs example_parses parse_sns_body_def nullish_def fire_alert_text_def)

text \<open>
  C8 as stated fails on \<open>/webhook/fire-alert\<close>: a notification with the subject
  \<open>Routine Check\<close>, which does not contain \<open>fire\<close>, is broadcast to all clients and to
  the room of its device.
\<close>

theorem subject_not_read_counterexample:
  "json_parse example_env routine_check_text
     = Inr (JObj [(''Type'', JStr ''Notification''), (''Subject'', JStr ''Routine Check''),
                  (''Message'', JStr alert_text)])
   \<and> \<not> subject_matches (JStr ''Routine Check'')
   \<and> status (fst (fire_alert example_env (Some ''text/plain'') (BufferBody routine_check_text))) = 200
   \<and> emit_targets (snd (fire_alert example_env (Some ''text/plain'')
        (BufferBody routine_check_text)))
       = [AllClients, Room ''device-Node 1'', AllClients]"
  using routine_check_subject
  by (simp add: example_parses routine_check_broadcast emit_targets_def List.map_filter_def
        subject_matches_iff)

section \<open>Properties of the acknowledgement of a delivery\<close>

lemma fire_alert_failed_response: "fst (fire_alert_failed env es) = \<lparr>status = 500, body = JObj [(''error'', JStr ''Failed to process fire alert'')]\<rparr>"
  by (simp add: fire_alert_failed_def)

lemma fire_alert_unparsed:
  assumes "(\<exists>e. fire_alert_text env ct b = Inl e)
           \<or> (\<exists>body_text. fire_alert_text env ct b = Inr body_text
                 \<and> ((\<exists>m. json_parse env body_text = Inl m)
                      \<or> json_parse env body_text = Inr JNull
                      \<or> json_parse env body_text = Inr JUndefined))"
  shows "fst (fire_alert env ct b) = \<lparr>status = 500, body = JObj [(''error'', JStr ''Failed to process fire alert'')]\<rparr>"
  using assms
  by (auto simp: fire_alert_def JSON_parse_def read_prop_def nullish_def
        fire_alert_failed_response)

lemma fire_alert_confirmation_throws:
  "snd (fire_alert_confirmation env message) \<noteq> None
     \<longleftrightarrow> get_prop message ''SubscribeURL'' = JNull \<and> 2 \<le> logger_level env"
  by (simp add: fire_alert_confirmation_def Let_def logger_meta_def split: sum.splits)

lemma fire_alert_notification_throws_iff:
  "snd (fire_alert_notification env message) \<noteq> None \<longleftrightarrow>
     (ToString (coerce_str env) (get_prop message ''Message'') = None
      \<or> (\<exists>t. ToString (coerce_str env) (get_prop message ''Message'') = Some t
            \<and> ((\<exists>m. json_parse env t = Inl m)
                 \<or> (\<exists>alertData. json_parse env t = Inr alertData
                       \<and> (nullish alertData \<or> nullish (get_prop alertData ''location'')
                            \<or> ToString (coerce_str env) (get_prop alertData ''temperature'') = None
                            \<or> ToString (coerce_str env) (get_prop alertData ''humidity'') = None
                            \<or> ToString (coerce_str env)
                                 (get_prop (get_prop alertData ''location'') ''latitude'') = None
                            \<or> ToString (coerce_str env)
                                 (get_prop (get_prop alertData ''location'') ''longitude'') = None
                            \<or> ToString (coerce_str env) (get_prop alertData ''deviceId'') = None)))))"
proof (cases "ToString (coerce_str env) (get_prop message ''Message'')")
  case None
  then show ?thesis
    by (simp add: fire_alert_notification_def)
next
  case (Some t)
  show ?thesis
  proof (cases "json_parse env t")
    case (Inl m)
    then show ?thesis
      using Some by (simp add: fire_alert_notification_def JSON_parse_def)
  next
    case (Inr alertData)
    then show ?thesis
      using Some
      by (cases "ToString (coerce_str env) (get_prop alertData ''deviceId'')")
         (auto simp: fire_alert_notification_def JSON_parse_def Let_def)
  qed
qed

lemma fire_alert_parsed:
  assumes "fire_alert_text env ct b = Inr body_text"
    and "json_parse env body_text = Inr message" and "\<not> nullish message"
  shows "fst (fire_alert env ct b) =
           (if get_prop message ''Type'' = JNull \<and> 2 \<le> logger_level env then \<lparr>status = 500, body = JObj [(''error'', JStr ''Failed to process fire alert'')]\<rparr>
            else if get_prop message ''Type'' = JStr ''SubscriptionConfirmation'' then
              (if snd (fire_alert_confirmation env message) \<noteq> None then \<lparr>status = 500, body = JObj [(''error'', JStr ''Failed to process fire alert'')]\<rparr>
               else \<lparr>status = 200, body = JStr ''SNS Subscription processed''\<rparr>)
            else if get_prop message ''Type'' = JStr ''Notification'' then
              (if snd (fire_alert_notification env message) \<noteq> None then \<lparr>status = 500, body = JObj [(''error'', JStr ''Failed to process fire alert'')]\<rparr>
               else \<lparr>status = 200, body = JStr ''OK''\<rparr>)
            else \<lparr>status = 200, body = JStr ''OK''\<rparr>)"
proof -
  obtain ces cr where c: "fire_alert_confirmation env message = (ces, cr)"
    by (cases "fire_alert_confirmation env message")
  obtain nes nr where n: "fire_alert_notification env message = (nes, nr)"
    by (cases "fire_alert_notification env message")
  show ?thesis
    using assms c n
    by (cases cr; cases nr)
       (simp_all add: fire_alert_def JSON_parse_def read_prop_def logger_meta_def
          fire_alert_failed_response fire_alert_failed_def)
qed

text \<open>
  C4, as the code has it. A body that a body parser rejects never reaches a handler:
  on both routes \<open>errorHandler\<close> answers it, for the parser's status 400 with
  \<open>{success: false, message: 'Internal server error', timestamp}\<close> (and the details in
  development). \<open>/sns/webhook\<close> answers 500 with \<open>{success: false, error}\<close>, the error
  being the message of \<open>JSON.parse\<close>, when the handler itself parses the body (a Buffer
  or a string) and fails; it answers 200 with the success body for every body that gives
  a value other than null and undefined, whatever the processing of the notification, the
  confirmation fetch and the broadcast do, a confirmation whose \<open>SubscribeUrl\<close> is null
  while the logger prints INFO left aside. \<open>/webhook/fire-alert\<close> answers 500 with
  \<open>{error: 'Failed to process fire alert'}\<close> exactly when something in the handler
  throws: the body gives no text or no JSON, or null; \<open>Type\<close> is null, or the
  \<open>SubscribeURL\<close> of a confirmation is null, while the logger prints INFO; or, in a
  notification, \<open>Message\<close> is not the JSON text of an alert with a \<open>location\<close> whose
  temperature, humidity, coordinates and device id can be rendered as text. In every other
  case it answers 200 with the text \<open>SNS Subscription processed\<close> for a confirmation and
  \<open>OK\<close> otherwise.
\<close>

theorem webhook_acknowledgement:
  "(err_name err \<noteq> ''ValidationError'' \<and> err_code err = None \<and> err_statusCode err = Some 400 \<longrightarrow>
      fst (sns_webhook_route env mt (ParserError err))
        = \<lparr>status = 400,
           body = JObj ([(''success'', JBool False), (''message'', JStr ''Internal server error''),
                         (''timestamp'', JStr (now_iso env))]
                        @ (if development env
                           then [(''details'', JObj [(''message'', JStr (err_message err)),
                                                     (''stack'', JStr (err_stack err))])]
                           else []))\<rparr>
      \<and> fst (fire_alert_route env ct (ParserError err))
          = fst (sns_webhook_route env mt (ParserError err)))
   \<and> ((b1 = BufferBody body_text1 \<or> b1 = StringBody body_text1)
       \<and> json_parse env body_text1 = Inl engine_message \<longrightarrow>
      fst (sns_webhook_route env mt (Parsed b1))
        = \<lparr>status = 500,
           body = JObj [(''success'', JBool False), (''error'', JStr engine_message)]\<rparr>)
   \<and> (parse_sns_body env b2 = Inr snsMessage \<and> \<not> nullish snsMessage
       \<and> \<not> (mt = Some ''SubscriptionConfirmation'' \<and> subscribeUrl_of snsMessage = JNull
             \<and> 2 \<le> logger_level env) \<longrightarrow>
      fst (sns_webhook_route env mt (Parsed b2))
        = \<lparr>status = 200,
           body = JObj [(''success'', JBool True),
                        (''message'', JStr ''SNS notification processed''),
                        (''messageId'', get_prop snsMessage ''MessageId''),
                        (''timestamp'', JStr (now_iso env))]\<rparr>)
   \<and> ((\<exists>e. fire_alert_text env ct b3 = Inl e)
       \<or> (\<exists>body_text. fire_alert_text env ct b3 = Inr body_text
             \<and> ((\<exists>m. json_parse env body_text = Inl m)
                  \<or> json_parse env body_text = Inr JNull
                  \<or> json_parse env body_text = Inr JUndefined)) \<longrightarrow>
      fst (fire_alert_route env ct (Parsed b3))
        = \<lparr>status = 500, body = JObj [(''error'', JStr ''Failed to process fire alert'')]\<rparr>)
   \<and> (fire_alert_text env ct b4 = Inr body_text4 \<and> json_parse env body_text4 = Inr message
       \<and> \<not> nullish message \<longrightarrow>
      fst (fire_alert_route env ct (Parsed b4))
        = (if (get_prop message ''Type'' = JNull \<and> 2 \<le> logger_level env)
              \<or> (get_prop message ''Type'' = JStr ''SubscriptionConfirmation''
                  \<and> get_prop message ''SubscribeURL'' = JNull \<and> 2 \<le> logger_level env)
              \<or> (get_prop message ''Type'' = JStr ''Notification''
                  \<and> (ToString (coerce_str env) (get_prop message ''Message'') = None
                      \<or> (\<exists>t. ToString (coerce_str env) (get_prop message ''Message'') = Some t
                            \<and> ((\<exists>m. json_parse env t = Inl m)
                                 \<or> (\<exists>alertData. json_parse env t = Inr alertData
                                       \<and> (nullish alertData
                                            \<or> nullish (get_prop alertData ''location'')
                                            \<or> ToString (coerce_str env)
                                                 (get_prop alertData ''temperature'') = None
                                            \<or> ToString (coerce_str env)
                                                 (get_prop alertData ''humidity'') = None
                                            \<or> ToString (coerce_str env)
                                                 (get_prop (get_prop alertData ''location'')
                                                    ''latitude'') = None
                                            \<or> ToString (coerce_str env)
                                                 (get_prop (get_prop alertData ''location'')
                                                    ''longitude'') = None
                                            \<or> ToString (coerce_str env)
                                                 (get_prop alertData ''deviceId'') = None))))))
           then \<lparr>status = 500,
                 body = JObj [(''error'', JStr ''Failed to process fire alert'')]\<rparr>
           else if get_prop message ''Type'' = JStr ''SubscriptionConfirmation''
           then \<lparr>status = 200, body = JStr ''SNS Subscription processed''\<rparr>
           else \<lparr>status = 200, body = JStr ''OK''\<rparr>))"
proof -
  have a: "err_name err \<noteq> ''ValidationError'' \<and> err_code err = None
           \<and> err_statusCode err = Some 400 \<longrightarrow>
      fst (sns_webhook_route env mt (ParserError err))
        = \<lparr>status = 400,
           body = JObj ([(''success'', JBool False), (''message'', JStr ''Internal server error''),
                         (''timestamp'', JStr (now_iso env))]
                        @ (if development env
                           then [(''details'', JObj [(''message'', JStr (err_message err)),
                                                     (''stack'', JStr (err_stack err))])]
                           else []))\<rparr>
      \<and> fst (fire_alert_route env ct (ParserError err))
          = fst (sns_webhook_route env mt (ParserError err))"
    by (simp add: sns_webhook_route_def fire_alert_route_def errorHandler_def Let_def)
  have b: "(b1 = BufferBody body_text1 \<or> b1 = StringBody body_text1)
       \<and> json_parse env body_text1 = Inl engine_message \<longrightarrow>
      fst (sns_webhook_route env mt (Parsed b1))
        = \<lparr>status = 500,
           body = JObj [(''success'', JBool False), (''error'', JStr engine_message)]\<rparr>"
    by (auto simp: sns_webhook_route_def sns_webhook_def parse_sns_body_def JSON_parse_def
          sns_failed_def)
  have c: "parse_sns_body env b2 = Inr snsMessage \<and> \<not> nullish snsMessage
       \<and> \<not> (mt = Some ''SubscriptionConfirmation'' \<and> subscribeUrl_of snsMessage = JNull
             \<and> 2 \<le> logger_level env) \<longrightarrow>
      fst (sns_webhook_route env mt (Parsed b2))
        = \<lparr>status = 200,
           body = JObj [(''success'', JBool True),
                        (''message'', JStr ''SNS notification processed''),
                        (''messageId'', get_prop snsMessage ''MessageId''),
                        (''timestamp'', JStr (now_iso env))]\<rparr>"
    using sns_webhook_status [of env b2 snsMessage mt]
    by (auto simp: sns_webhook_route_def)
  have d: "(\<exists>e. fire_alert_text env ct b3 = Inl e)
       \<or> (\<exists>body_text. fire_alert_text env ct b3 = Inr body_text
             \<and> ((\<exists>m. json_parse env body_text = Inl m)
                  \<or> json_parse env body_text = Inr JNull
                  \<or> json_parse env body_text = Inr JUndefined)) \<longrightarrow>
      fst (fire_alert_route env ct (Parsed b3))
        = \<lparr>status = 500, body = JObj [(''error'', JStr ''Failed to process fire alert'')]\<rparr>"
    using fire_alert_unparsed [of env ct b3]
    by (simp add: fire_alert_route_def)
  have e: "fire_alert_text env ct b4 = Inr body_text4 \<and> json_parse env body_text4 = Inr message
       \<and> \<not> nullish message \<longrightarrow>
      fst (fire_alert_route env ct (Parsed b4))
        = (if (get_prop message ''Type'' = JNull \<and> 2 \<le> logger_level env)
              \<or> (get_prop message ''Type'' = JStr ''SubscriptionConfirmation''
                  \<and> get_prop message ''SubscribeURL'' = JNull \<and> 2 \<le> logger_level env)
              \<or> (get_prop message ''Type'' = JStr ''Notification''
                  \<and> (ToString (coerce_str env) (get_prop message ''Message'') = None
                      \<or> (\<exists>t. ToString (coerce_str env) (get_prop message ''Message'') = Some t
                            \<and> ((\<exists>m. json_parse env t = Inl m)
                                 \<or> (\<exists>alertData. json_parse env t = Inr alertData
                                       \<and> (nullish alertData
                                            \<or> nullish (get_prop alertData ''location'')
                                            \<or> ToString (coerce_str env)
                                                 (get_prop alertData ''temperature'') = None
                                            \<or> ToString (coerce_str env)
                                                 (get_prop alertData ''humidity'') = None
                                            \<or> ToString (coerce_str env)
                                                 (get_prop (get_prop alertData ''location'')
                                                    ''latitude'') = None
                                            \<or> ToString (coerce_str env)
                                                 (get_prop (get_prop alertData ''location'')
                                                    ''longitude'') = None
                                            \<or> ToString (coerce_str env)
                                                 (get_prop alertData ''deviceId'') = None))))))
           then \<lparr>status = 500,
                 body = JObj [(''error'', JStr ''Failed to process fire alert'')]\<rparr>
           else if get_prop message ''Type'' = JStr ''SubscriptionConfirmation''
           then \<lparr>status = 200, body = JStr ''SNS Subscription processed''\<rparr>
           else \<lparr>status = 200, body = JStr ''OK''\<rparr>)"
  proof (intro impI, elim conjE)
    assume h: "fire_alert_text env ct b4 = Inr body_text4"
      "json_parse env body_text4 = Inr message" "\<not> nullish message"
    show "fst (fire_alert_route env ct (Parsed b4))
        = (if (get_prop message ''Type'' = JNull \<and> 2 \<le> logger_level env)
              \<or> (get_prop message ''Type'' = JStr ''SubscriptionConfirmation''
                  \<and> get_prop message ''SubscribeURL'' = JNull \<and> 2 \<le> logger_level env)
              \<or> (get_prop message ''Type'' = JStr ''Notification''
                  \<and> (ToString (coerce_str env) (get_prop message ''Message'') = None
                      \<or> (\<exists>t. ToString (coerce_str env) (get_prop message ''Message'') = Some t
                            \<and> ((\<exists>m. json_parse env t = Inl m)
                                 \<or> (\<exists>alertData. json_parse env t = Inr alertData
                                       \<and> (nullish alertData
                                            \<or> nullish (get_prop alertData ''location'')
                                            \<or> ToString (coerce_str env)
                                                 (get_prop alertData ''temperature'') = None
                                            \<or> ToString (coerce_str env)
                                                 (get_prop alertData ''humidity'') = None
                                            \<or> ToString (coerce_str env)
                                                 (get_prop (get_prop alertData ''location'')
                                                    ''latitude'') = None
                                            \<or> ToString (coerce_str env)
                                                 (get_prop (get_prop alertData ''location'')
                                                    ''longitude'') = None
                                            \<or> ToString (coerce_str env)
                                                 (get_prop alertData ''deviceId'') = None))))))
           then \<lparr>status = 500,
                 body = JObj [(''error'', JStr ''Failed to process fire alert'')]\<rparr>
           else if get_prop message ''Type'' = JStr ''SubscriptionConfirmation''
           then \<lparr>status = 200, body = JStr ''SNS Subscription processed''\<rparr>
           else \<lparr>status = 200, body = JStr ''OK''\<rparr>)"
      unfolding fire_alert_route_def parser_outcome.case fire_alert_parsed [OF h]
        fire_alert_confirmation_throws fire_alert_notification_throws_iff
      by simp
  qed
  from a b c d e show ?thesis
    by blast
qed

theorem webhook_acknowledgement_witness:
  "err_name parse_failed \<noteq> ''ValidationError'' \<and> err_code parse_failed = None
   \<and> err_statusCode parse_failed = Some 400
   \<and> fst (sns_webhook_route example_env (Some ''Notification'') (ParserError parse_failed))
       = \<lparr>status = 400,
          body = JObj [(''success'', JBool False), (''message'', JStr ''Internal server error''),
                       (''timestamp'', JStr ''2025-01-01T00:00:00.000Z'')]\<rparr>
   \<and> fst (fire_alert_route example_env (Some ''text/plain'') (ParserError parse_failed))
       = \<lparr>status = 400,
          body = JObj [(''success'', JBool False), (''message'', JStr ''Internal server error''),
                       (''timestamp'', JStr ''2025-01-01T00:00:00.000Z'')]\<rparr>
   \<and> json_parse example_env '' '' = Inl ''Unexpected end of JSON input''
   \<and> fst (sns_webhook_route example_env (Some ''Notification'') (Parsed (BufferBody '' '')))
       = \<lparr>status = 500,
          body = JObj [(''success'', JBool False),
                       (''error'', JStr ''Unexpected end of JSON input'')]\<rparr>
   \<and> parse_sns_body example_env
        (ParsedBody (JObj [(''Subject'', JStr ''Fire Alert''), (''Message'', JStr '' '')]))
       = Inr (JObj [(''Subject'', JStr ''Fire Alert''), (''Message'', JStr '' '')])
   \<and> \<not> nullish (JObj [(''Subject'', JStr ''Fire Alert''), (''Message'', JStr '' '')])
   \<and> fst (sns_webhook_route example_env (Some ''Notification'')
        (Parsed (ParsedBody (JObj [(''Subject'', JStr ''Fire Alert''),
                                   (''Message'', JStr '' '')]))))
       = \<lparr>status = 200,
          body = JObj [(''success'', JBool True),
                       (''message'', JStr ''SNS notification processed''),
                       (''messageId'', JUndefined),
                       (''timestamp'', JStr ''2025-01-01T00:00:00.000Z'')]\<rparr>
   \<and> fire_alert_text example_env (Some ''text/plain'') (BufferBody '' '') = Inr '' ''
   \<and> fst (fire_alert_route example_env (Some ''text/plain'') (Parsed (BufferBody '' '')))
       = \<lparr>status = 500, body = JObj [(''error'', JStr ''Failed to process fire alert'')]\<rparr>
   \<and> fire_alert_text example_env (Some ''text/plain'') (BufferBody blank_notification_text)
       = Inr blank_notification_text
   \<and> json_parse example_env blank_notification_text
       = Inr (JObj [(''Type'', JStr ''Notification''), (''Message'', JStr '' '')])
   \<and> fst (fire_alert_route example_env (Some ''text/plain'')
        (Parsed (BufferBody blank_notification_text)))
       = \<lparr>status = 500, body = JObj [(''error'', JStr ''Failed to process fire alert'')]\<rparr>
   \<and> fire_alert_text example_env (Some ''text/plain'') (BufferBody routine_check_text)
       = Inr routine_check_text
   \<and> json_parse example_env routine_check_text
       = Inr (JObj [(''Type'', JStr ''Notification''), (''Subject'', JStr ''Routine Check''),
                    (''Message'', JStr alert_text)])
   \<and> fst (fire_alert_route example_env (Some ''text/plain'')
        (Parsed (BufferBody routine_check_text)))
       = \<lparr>status = 200, body = JStr ''OK''\<rparr>
   \<and> fire_alert_text example_env (Some ''text/plain'') (BufferBody confirmation_text)
       = Inr confirmation_text
   \<and> json_parse example_env confirmation_text
       = Inr (JObj [(''Type'', JStr ''SubscriptionConfirmation''),
                    (''SubscribeURL'', JStr ''https://sns.example/confirm'')])
   \<and> fst (fire_alert_route example_env (Some ''text/plain'')
        (Parsed (BufferBody confirmation_text)))
       = \<lparr>status = 200, body = JStr ''SNS Subscription processed''\<rparr>"
proof -
  have env: "now_iso example_env = ''2025-01-01T00:00:00.000Z''" "\<not> development example_env"
    "coerce_str example_env = example_coerce_str"
    by (simp_all add: example_env_def)
  have pf: "err_name parse_failed \<noteq> ''ValidationError''" "err_code parse_failed = None"
    "err_statusCode parse_failed = Some 400"
    by (simp_all add: parse_failed_def)
  note w1 = webhook_acknowledgement
    [where env = example_env and err = parse_failed and mt = "Some ''Notification''"
       and ct = "Some ''text/plain''" and ?b1.0 = "BufferBody '' ''" and ?body_text1.0 = "'' ''"
       and engine_message = "''Unexpected end of JSON input''"
       and ?b2.0 = "ParsedBody (JObj [(''Subject'', JStr ''Fire Alert''),
                                      (''Message'', JStr '' '')])"
       and snsMessage = "JObj [(''Subject'', JStr ''Fire Alert''), (''Message'', JStr '' '')]"
       and ?b3.0 = "BufferBody '' ''"
       and ?b4.0 = "BufferBody blank_notification_text"
       and ?body_text4.0 = blank_notification_text
       and message = "JObj [(''Type'', JStr ''Notification''), (''Message'', JStr '' '')]"]
  note w2 = webhook_acknowledgement
    [where env = example_env and err = parse_failed and mt = "Some ''Notification''"
       and ct = "Some ''text/plain''" and ?b1.0 = "BufferBody '' ''" and ?body_text1.0 = "'' ''"
       and engine_message = "''Unexpected end of JSON input''"
       and ?b2.0 = "ParsedBody (JObj [(''Subject'', JStr ''Fire Alert''),
                                      (''Message'', JStr '' '')])"
       and snsMessage = "JObj [(''Subject'', JStr ''Fire Alert''), (''Message'', JStr '' '')]"
       and ?b3.0 = "BufferBody '' ''"
       and ?b4.0 = "BufferBody routine_check_text"
       and ?body_text4.0 = routine_check_text
       and message = "JObj [(''Type'', JStr ''Notification''),
                            (''Subject'', JStr ''Routine Check''),
                            (''Message'', JStr alert_text)]"]
  note w3 = webhook_acknowledgement
    [where env = example_env and err = parse_failed and mt = "Some ''Notification''"
       and ct = "Some ''text/plain''" and ?b1.0 = "BufferBody '' ''" and ?body_text1.0 = "'' ''"
       and engine_message = "''Unexpected end of JSON input''"
       and ?b2.0 = "ParsedBody (JObj [(''Subject'', JStr ''Fire Alert''),
                                      (''Message'', JStr '' '')])"
       and snsMessage = "JObj [(''Subject'', JStr ''Fire Alert''), (''Message'', JStr '' '')]"
       and ?b3.0 = "BufferBody '' ''"
       and ?b4.0 = "BufferBody confirmation_text"
       and ?body_text4.0 = confirmation_text
       and message = "JObj [(''Type'', JStr ''SubscriptionConfirmation''),
                            (''SubscribeURL'', JStr ''https://sns.example/confirm'')]"]
  show ?thesis
    using w1 w2 w3
    by (simp add: example_parses env pf parse_sns_body_def nullish_def fire_alert_text_def
          subscribeUrl_of_def example_coerce_str_def)
qed

text \<open>
  C4 as stated fails on \<open>/webhook/fire-alert\<close>: the envelope parses, its \<open>Message\<close>
  is the JSON text of an empty object, and the answer is 500.
\<close>

theorem fire_alert_missing_location_counterexample:
  "json_parse example_env notification_text
     = Inr (JObj [(''Type'', JStr ''Notification''), (''Message'', JStr ''{}'')])
   \<and> fst (fire_alert example_env (Some ''text/plain'') (BufferBody notification_text))
       = \<lparr>status = 500, body = JObj [(''error'', JStr ''Failed to process fire alert'')]\<rparr>"
  by (simp add: example_parses fire_alert_def fire_alert_text_def JSON_parse_def read_prop_def
        nullish_def logger_meta_def fire_alert_notification_def Let_def fire_alert_failed_def)

end
